theory Spec2Isabelle
  imports Complex_Main "HOL-Library.Extended_Nat"
begin

section \<open>JavaScript values and control flow\<close>

text \<open>
  Values that travel through \<^verbatim>\<open>send(type, data)\<close> and \<^verbatim>\<open>JSON.parse\<close>. Numbers are
  modelled as reals (rounding of doubles is not modelled); \<open>JBigInt\<close> stands for the values
  \<^verbatim>\<open>JSON.stringify\<close> refuses with a TypeError.
\<close>

datatype jsval =
    JUndefined
  | JNull
  | JBool bool
  | JNum real
  | JStr string
  | JArr "jsval list"
  | JObj "(string \<times> jsval) list"
  | JBigInt int

text \<open>\<^verbatim>\<open>JSON.stringify\<close> throws exactly when a BigInt occurs somewhere in the value.\<close>

fun serializable :: "jsval \<Rightarrow> bool" where
  "serializable (JBigInt n) = False"
| "serializable (JArr xs) = list_all serializable xs"
| "serializable (JObj kvs) = list_all serializable (map snd kvs)"
| "serializable v = True"

text \<open>
  A handler either returns or lets a TypeError escape; \<open>Thrown\<close> carries the state at the
  moment of the throw, since the mutations made before it stay in place.
\<close>

datatype 'a outcome = Normal 'a | Thrown 'a

fun state_of :: "'a outcome \<Rightarrow> 'a" where
  "state_of (Normal s) = s"
| "state_of (Thrown s) = s"

fun returned :: "'a outcome \<Rightarrow> bool" where
  "returned (Normal s) = True"
| "returned (Thrown s) = False"

fun and_then :: "'a outcome \<Rightarrow> ('a \<Rightarrow> 'a outcome) \<Rightarrow> 'a outcome" where
  "and_then (Normal s) f = f s"
| "and_then (Thrown s) f = Thrown s"

text \<open>\<^verbatim>\<open>Array.prototype.splice(i, 1)\<close> and \<^verbatim>\<open>indexOf\<close> (\<open>None\<close> is the source's \<open>-1\<close>).\<close>

definition splice_at :: "nat \<Rightarrow> 'a list \<Rightarrow> 'a list" where
  "splice_at i xs = take i xs @ drop (Suc i) xs"

fun indexOf :: "'a list \<Rightarrow> 'a \<Rightarrow> nat option" where
  "indexOf [] y = None"
| "indexOf (x # xs) y = (if x = y then Some 0 else map_option Suc (indexOf xs y))"

text \<open>\<^verbatim>\<open>String.prototype.trim\<close> on ASCII text.\<close>

definition is_space :: "char \<Rightarrow> bool" where
  "is_space c = (c = CHR '' '' \<or> c = CHR 0x09 \<or> c = CHR 0x0A \<or> c = CHR 0x0B \<or> c = CHR 0x0C \<or> c = CHR 0x0D)"

definition trim :: "string \<Rightarrow> string" where
  "trim s = rev (dropWhile is_space (rev (dropWhile is_space s)))"

text \<open>
  \<^verbatim>\<open>JSON.parse\<close>: a JSON text starts, after white space, with an opening bracket or brace,
  a double quote, a minus sign, a digit, or one of the literals \<^verbatim>\<open>null\<close>, \<^verbatim>\<open>true\<close>,
  \<^verbatim>\<open>false\<close>; anything else is a SyntaxError. The rest of the grammar is the platform's and
  is a parameter (\<open>None\<close> where it throws).
\<close>

definition json_ws :: "char \<Rightarrow> bool" where
  "json_ws c = (c = CHR '' '' \<or> c = CHR 0x09 \<or> c = CHR 0x0A \<or> c = CHR 0x0D)"

definition json_first_token :: "string \<Rightarrow> bool" where
  "json_first_token s =
     (case s of
        [] \<Rightarrow> False
      | c # cs \<Rightarrow>
          if c = CHR ''n'' then take 4 s = ''null''
          else if c = CHR ''t'' then take 4 s = ''true''
          else if c = CHR ''f'' then take 5 s = ''false''
          else c \<in> set ''{[-0123456789'' \<or> c = CHR 0x22)"

definition JSON_parse :: "(string \<Rightarrow> jsval option) \<Rightarrow> string \<Rightarrow> jsval option" where
  "JSON_parse grammar s = (if json_first_token (dropWhile json_ws s) then grammar s else None)"

section \<open>utils.js\<close>

datatype role = HOST | CLIENT

definition getWinThreshold :: "string \<Rightarrow> enat" where
  "getWinThreshold mode =
     (if mode = ''bo3'' then 2
      else if mode = ''bo5'' then 3
      else if mode = ''infinite'' then \<infinity>
      else \<infinity>)"

section \<open>webrtc.js: the WebRTCManager\<close>

text \<open>
  A frame is the text \<^verbatim>\<open>JSON.stringify\<close> produced; it is represented by the value that was
  serialized. An \<^verbatim>\<open>RTCDataChannel\<close> accepts a frame only while its ready state is open and
  throws otherwise.
\<close>

datatype frame = Frame jsval

datatype ready_state = Connecting | Open | Closing | Closed

record channel =
  readyState :: ready_state
  sent :: "frame list"

definition channel_send :: "frame \<Rightarrow> channel \<Rightarrow> channel option" where
  "channel_send f c = (if readyState c = Open then Some (c\<lparr>sent := sent c @ [f]\<rparr>) else None)"

record peer =
  remoteDescription :: "jsval option"
  localDescription :: "jsval option"

text \<open>What the browser answers to the asynchronous calls of the negotiation.\<close>

record platform =
  grammar :: "string \<Rightarrow> jsval option"
  acceptsRemote :: "jsval \<Rightarrow> bool"
  answerFor :: "jsval \<Rightarrow> jsval option"
  offerMade :: "jsval option"

record manager =
  peerConnection :: "peer option"
  dataChannel :: "channel option"
  mgr_role :: "role option"
  isConnected :: bool
  connectionTimeout :: bool
  lobbyShown :: bool
  lobbyStatus :: string
  offerCode :: "frame option"
  answerCode :: "frame option"
  emitted :: "string list"
  clock :: int

definition newManager :: "int \<Rightarrow> manager" where
  "newManager t =
     \<lparr>peerConnection = None, dataChannel = None, mgr_role = None, isConnected = False,
      connectionTimeout = False, lobbyShown = False, lobbyStatus = [], offerCode = None,
      answerCode = None, emitted = [], clock = t\<rparr>"

definition envelope :: "jsval \<Rightarrow> jsval \<Rightarrow> int \<Rightarrow> jsval" where
  "envelope ty d t = JObj [(''type'', ty), (''data'', d), (''timestamp'', JNum (of_int t))]"

text \<open>
  \<^verbatim>\<open>send(type, data = {})\<close>. The body of the \<^verbatim>\<open>try\<close> is \<open>send_try\<close>, \<open>None\<close> when
  \<^verbatim>\<open>JSON.stringify\<close> or \<^verbatim>\<open>dataChannel.send\<close> throws; the \<^verbatim>\<open>catch\<close> turns that into
  \<^verbatim>\<open>false\<close>.
\<close>

definition send_try :: "jsval \<Rightarrow> jsval \<Rightarrow> int \<Rightarrow> channel \<Rightarrow> channel option" where
  "send_try ty d t c =
     (let message = envelope ty d t
      in if serializable message then channel_send (Frame message) c else None)"

definition send :: "jsval \<Rightarrow> jsval \<Rightarrow> manager \<Rightarrow> bool \<times> manager" where
  "send ty d0 m =
     (let d = (if d0 = JUndefined then JObj [] else d0)
      in if \<not> isConnected m then (False, m)
         else case dataChannel m of
                None \<Rightarrow> (False, m)
              | Some c \<Rightarrow>
                  (case send_try ty d (clock m) c of
                     None \<Rightarrow> (False, m)
                   | Some c' \<Rightarrow> (True, m\<lparr>dataChannel := Some c'\<rparr>)))"

definition createPeerConnection :: "manager \<Rightarrow> manager" where
  "createPeerConnection m =
     m\<lparr>peerConnection := Some \<lparr>remoteDescription = None, localDescription = None\<rparr>\<rparr>"

definition startJoin :: "manager \<Rightarrow> manager" where
  "startJoin m =
     m\<lparr>mgr_role := Some CLIENT, lobbyShown := True,
       lobbyStatus := ''Paste the host'' @ [CHR 0x27] @ ''s Offer JSON below.'',
       connectionTimeout := True\<rparr>"

definition startHost :: "platform \<Rightarrow> manager \<Rightarrow> manager" where
  "startHost pf m =
     (let m1 = createPeerConnection (m\<lparr>mgr_role := Some HOST, lobbyShown := True\<rparr>);
          m2 = m1\<lparr>dataChannel := Some \<lparr>readyState = Connecting, sent = []\<rparr>\<rparr>
      in case offerMade pf of
           None \<Rightarrow> m2\<lparr>lobbyStatus := ''Failed to create connection. Please try again.''\<rparr>
         | Some offer \<Rightarrow>
             m2\<lparr>peerConnection := Some \<lparr>remoteDescription = None, localDescription = Some offer\<rparr>,
                offerCode := Some (Frame offer),
                lobbyStatus := ''Share the Offer JSON with your opponent, then paste their Answer JSON below.'',
                connectionTimeout := True\<rparr>)"

definition invalidOffer :: string where
  "invalidOffer = ''Invalid Offer JSON or connection failed. Please try again.''"

definition handleOfferSubmit :: "platform \<Rightarrow> string \<Rightarrow> manager \<Rightarrow> manager" where
  "handleOfferSubmit pf input m =
     (let offerJSON = trim input
      in if offerJSON = [] then m\<lparr>lobbyStatus := ''Please paste the Offer JSON from the host.''\<rparr>
         else
           let m1 = m\<lparr>lobbyStatus := ''Connecting...''\<rparr>
           in case JSON_parse (grammar pf) offerJSON of
                None \<Rightarrow> m1\<lparr>lobbyStatus := invalidOffer\<rparr>
              | Some offer \<Rightarrow>
                  let m2 = createPeerConnection m1
                  in if \<not> acceptsRemote pf offer then m2\<lparr>lobbyStatus := invalidOffer\<rparr>
                     else
                       let m3 = m2\<lparr>peerConnection :=
                                  Some \<lparr>remoteDescription = Some offer, localDescription = None\<rparr>\<rparr>
                       in case answerFor pf offer of
                            None \<Rightarrow> m3\<lparr>lobbyStatus := invalidOffer\<rparr>
                          | Some answer \<Rightarrow>
                              m3\<lparr>peerConnection :=
                                   Some \<lparr>remoteDescription = Some offer, localDescription = Some answer\<rparr>,
                                 answerCode := Some (Frame answer),
                                 lobbyStatus := ''Share the Answer JSON with the host and wait for connection...''\<rparr>)"

definition invalidAnswer :: string where
  "invalidAnswer = ''Invalid Answer JSON. Please check and try again.''"

definition handleAnswerSubmit :: "platform \<Rightarrow> string \<Rightarrow> manager \<Rightarrow> manager" where
  "handleAnswerSubmit pf input m =
     (let answerJSON = trim input
      in if answerJSON = [] then m\<lparr>lobbyStatus := ''Please paste the Answer JSON from your opponent.''\<rparr>
         else
           let m1 = m\<lparr>lobbyStatus := ''Processing answer...''\<rparr>
           in case JSON_parse (grammar pf) answerJSON of
                None \<Rightarrow> m1\<lparr>lobbyStatus := invalidAnswer\<rparr>
              | Some answer \<Rightarrow>
                  (case peerConnection m1 of
                     None \<Rightarrow> m1\<lparr>lobbyStatus := invalidAnswer\<rparr>
                   | Some pc \<Rightarrow>
                       if \<not> acceptsRemote pf answer then m1\<lparr>lobbyStatus := invalidAnswer\<rparr>
                       else m1\<lparr>peerConnection := Some (pc\<lparr>remoteDescription := Some answer\<rparr>),
                               lobbyStatus := ''Connection established! Starting game...''\<rparr>))"

section \<open>game.js: the data\<close>

type_synonym vec3 = "real \<times> real \<times> real"

text \<open>\<^verbatim>\<open>Vector3.distanceTo\<close>, \<^verbatim>\<open>length\<close>, \<^verbatim>\<open>normalize\<close> and the arithmetic used on bullets.\<close>

definition vsub :: "vec3 \<Rightarrow> vec3 \<Rightarrow> vec3" where
  "vsub a b = (case a of (x1, y1, z1) \<Rightarrow> case b of (x2, y2, z2) \<Rightarrow> (x1 - x2, y1 - y2, z1 - z2))"

definition vadd :: "vec3 \<Rightarrow> vec3 \<Rightarrow> vec3" where
  "vadd a b = (case a of (x1, y1, z1) \<Rightarrow> case b of (x2, y2, z2) \<Rightarrow> (x1 + x2, y1 + y2, z1 + z2))"

definition multiplyScalar :: "real \<Rightarrow> vec3 \<Rightarrow> vec3" where
  "multiplyScalar k a = (case a of (x1, y1, z1) \<Rightarrow> (k * x1, k * y1, k * z1))"

definition vlength :: "vec3 \<Rightarrow> real" where
  "vlength a = (case a of (x1, y1, z1) \<Rightarrow> sqrt (x1 * x1 + y1 * y1 + z1 * z1))"

definition normalize :: "vec3 \<Rightarrow> vec3" where
  "normalize a = multiplyScalar (1 / (if vlength a = 0 then 1 else vlength a)) a"

definition distanceTo :: "vec3 \<Rightarrow> vec3 \<Rightarrow> real" where
  "distanceTo a b = vlength (vsub a b)"

text \<open>
  \<open>pref\<close> says which of the two player objects a reference such as
  \<^verbatim>\<open>gameState.localPlayer\<close> points to. The \<^verbatim>\<open>tank\<close> field of a player and the module
  variable \<^verbatim>\<open>player1Tank\<close> / \<^verbatim>\<open>player2Tank\<close> are assigned together (in
  \<^verbatim>\<open>createTanks\<close>) and name one object, kept once, as \<open>player1Tank\<close> / \<open>player2Tank\<close>.
\<close>

datatype pref = P1 | P2

record player =
  username :: string
  color :: string
  score :: nat
  health :: real

record tankobj =
  tref :: nat
  tposition :: vec3

text \<open>A decoration of the map: \<^verbatim>\<open>userData.type\<close>, \<^verbatim>\<open>userData.id\<close>, position, y rotation, scale.
  \<open>oref\<close> is the identity of the object (what \<^verbatim>\<open>indexOf\<close> and \<^verbatim>\<open>scene.remove\<close> compare).\<close>

record obj =
  oref :: nat
  otype :: string
  oid :: "string option"
  oposition :: vec3
  orotY :: real
  oscale :: real

record placement =
  pid :: "string option"
  px :: real
  py :: real
  pz :: real
  protY :: real
  pscale :: "real option"

record decorations =
  dwarehouses :: "placement list"
  dtrees :: "placement list"
  dbarriers :: "placement list"

record mapdata =
  mwarehouses :: "placement list option"
  mtrees :: "placement list option"
  mbarriers :: "placement list option"

record bullet =
  bref :: nat
  bposition :: vec3
  bvelocity :: vec3
  age :: real
  lastPosition :: vec3
  isLocal :: bool

record explosion =
  eref :: nat
  eposition :: vec3
  eage :: real
  currentFrame :: nat
  audioHelper :: nat

record remote_state =
  position :: vec3
  rotation :: "real \<times> real \<times> real \<times> real"
  headRotation :: real
  turretRotation :: real
  velocity :: vec3
  lastUpdate :: int

text \<open>
  A received message, by the \<^verbatim>\<open>type\<close> the switch of \<^verbatim>\<open>handleNetworkMessage\<close> tests, with
  the fields of \<^verbatim>\<open>data\<close> the handler reads. \<^verbatim>\<open>MSG_TYPES\<close> has no \<^verbatim>\<open>TREE_DESTROYED\<close> key,
  so that case is the message without a type, which is also what the sender writes.
  \<open>Other\<close> is any type the switch has no case for (\<^verbatim>\<open>ready\<close>, \<^verbatim>\<open>round_start\<close>, ...).
\<close>

datatype message =
    PlayerInfo string string
  | GameStart string "mapdata option"
  | PlayerUpdate remote_state
  | BulletSpawn vec3 vec3
  | Damage real string
  | Death
  | RoundEnd
  | TreeDestroyed string
  | Other string

text \<open>
  The state of the page: the fields of \<^verbatim>\<open>gameState\<close>, the module variables of game.js the
  handlers touch, the manager of webrtc.js, and what the handlers read of the page and of
  the other singletons (\<open>healthBarFill\<close> is the width of the health bar, \<open>None\<close> when the
  page has no such element; \<open>playerData\<close> is \<^verbatim>\<open>menuManager.getPlayerData()\<close>;
  \<open>cutscenePlaying\<close> is \<^verbatim>\<open>cutsceneManager.isPlaying\<close>; \<open>pendingRespawns\<close> counts the
  timers \<^verbatim>\<open>handleLocalDeath\<close> has set; \<open>particleDraw\<close> is what \<^verbatim>\<open>randInt(10, 15)\<close>
  returns; \<open>nextRef\<close> is the identity the next created object gets).
\<close>

record game =
  isMultiplayer :: bool
  isTestMode :: bool
  role :: "role option"
  localPlayer :: "pref option"
  remotePlayer :: "pref option"
  player1 :: player
  player2 :: player
  gameMode :: string
  winThreshold :: enat
  isRoundActive :: bool
  isControlsLocked :: bool
  gameStarted :: bool
  scene :: "nat list"
  collidables :: "obj list"
  trees :: "obj list"
  barriers :: "obj list"
  bullets :: "bullet list"
  explosions :: "explosion list"
  particles :: "nat list"
  decorationPositions :: decorations
  player1Tank :: "tankobj option"
  player2Tank :: "tankobj option"
  remotePlayerState :: remote_state
  explosionSpriteSheet :: bool
  explosionSoundBuffer :: bool
  healthBarFill :: "real option"
  gameUIShown :: bool
  menuVisible :: bool
  playerData :: "string \<times> string"
  cutscenePlaying :: bool
  pendingRespawns :: nat
  lastPlayerUpdateTime :: real
  particleDraw :: nat
  nextRef :: nat
  webrtcManager :: manager

definition maxPlayerHealth :: real where "maxPlayerHealth = 100"
definition bulletSpeed :: real where "bulletSpeed = 197"
definition bulletGravityStrength :: real where "bulletGravityStrength = 50"
definition explosionBlastRadius :: real where "explosionBlastRadius = 10"
definition explosionMaxDamage :: real where "explosionMaxDamage = 50"
definition playerUpdateInterval :: real where "playerUpdateInterval = 1 / 20"

definition newPlayer :: player where
  "newPlayer = \<lparr>username = [], color = [], score = 0, health = 100\<rparr>"

text \<open>The page as \<^verbatim>\<open>new GameState()\<close> and the module initialisers leave it, before \<^verbatim>\<open>init\<close>
  loads anything; the arguments are what the page and the platform provide.\<close>

definition newGame :: "real option \<Rightarrow> string \<times> string \<Rightarrow> nat \<Rightarrow> int \<Rightarrow> game" where
  "newGame bar pd draw t =
     \<lparr>isMultiplayer = False, isTestMode = False, role = None, localPlayer = None,
      remotePlayer = None, player1 = newPlayer, player2 = newPlayer, gameMode = ''infinite'',
      winThreshold = \<infinity>, isRoundActive = False, isControlsLocked = False, gameStarted = False,
      scene = [], collidables = [], trees = [], barriers = [], bullets = [], explosions = [],
      particles = [],
      decorationPositions = \<lparr>dwarehouses = [], dtrees = [], dbarriers = []\<rparr>,
      player1Tank = None, player2Tank = None,
      remotePlayerState = \<lparr>position = (0, 0, 0), rotation = (0, 0, 0, 1), headRotation = 0,
        turretRotation = 0, velocity = (0, 0, 0), lastUpdate = 0\<rparr>,
      explosionSpriteSheet = False, explosionSoundBuffer = False, healthBarFill = bar,
      gameUIShown = False, menuVisible = False, playerData = pd, cutscenePlaying = False,
      pendingRespawns = 0, lastPlayerUpdateTime = 0, particleDraw = draw, nextRef = 0,
      webrtcManager = newManager t\<rparr>"

fun playerOf :: "game \<Rightarrow> pref \<Rightarrow> player" where
  "playerOf g P1 = player1 g"
| "playerOf g P2 = player2 g"

fun setPlayer :: "pref \<Rightarrow> player \<Rightarrow> game \<Rightarrow> game" where
  "setPlayer P1 p g = g\<lparr>player1 := p\<rparr>"
| "setPlayer P2 p g = g\<lparr>player2 := p\<rparr>"

fun tankOf :: "game \<Rightarrow> pref \<Rightarrow> tankobj option" where
  "tankOf g P1 = player1Tank g"
| "tankOf g P2 = player2Tank g"

fun setTank :: "pref \<Rightarrow> tankobj option \<Rightarrow> game \<Rightarrow> game" where
  "setTank P1 t g = g\<lparr>player1Tank := t\<rparr>"
| "setTank P2 t g = g\<lparr>player2Tank := t\<rparr>"

text \<open>\<^verbatim>\<open>webrtcManager.send\<close> as the game calls it: the result is dropped.\<close>

definition net_send :: "jsval \<Rightarrow> jsval \<Rightarrow> game \<Rightarrow> game" where
  "net_send ty d g = g\<lparr>webrtcManager := snd (send ty d (webrtcManager g))\<rparr>"

definition multiplayer_send :: "jsval \<Rightarrow> jsval \<Rightarrow> game \<Rightarrow> game" where
  "multiplayer_send ty d g = (if isMultiplayer g \<and> \<not> isTestMode g then net_send ty d g else g)"

definition scene_remove :: "nat \<Rightarrow> nat list \<Rightarrow> nat list" where
  "scene_remove r s = (case indexOf s r of None \<Rightarrow> s | Some k \<Rightarrow> splice_at k s)"

section \<open>game.js: map generation\<close>

fun digits_of :: "nat \<Rightarrow> string" where
  "digits_of n =
     (if n < 10 then [''0123456789'' ! n]
      else digits_of (n div 10) @ [''0123456789'' ! (n mod 10)])"

declare digits_of.simps [simp del]

text \<open>One pass of the loop of a loader: the random draws and the height the ground ray cast
  finds are inputs.\<close>

record draw =
  drawX :: real
  drawZ :: real
  drawRotY :: real
  drawGroundY :: real
  drawScale :: real

definition addTree :: "nat \<Rightarrow> draw \<Rightarrow> game \<Rightarrow> game" where
  "addTree i d g =
     (let tree = \<lparr>oref = nextRef g, otype = ''tree'', oid = Some (''tree_'' @ digits_of i),
                  oposition = (drawX d, drawGroundY d, drawZ d), orotY = drawRotY d,
                  oscale = drawScale d\<rparr>;
          dp = decorationPositions g
      in g\<lparr>scene := scene g @ [oref tree],
           collidables := collidables g @ [tree],
           trees := trees g @ [tree],
           decorationPositions := dp\<lparr>dtrees := dtrees dp @
             [\<lparr>pid = oid tree, px = drawX d, py = drawGroundY d, pz = drawZ d,
               protY = drawRotY d, pscale = Some (drawScale d)\<rparr>]\<rparr>,
           nextRef := Suc (nextRef g)\<rparr>)"

fun loadTreesFrom :: "nat \<Rightarrow> draw list \<Rightarrow> game \<Rightarrow> game" where
  "loadTreesFrom i [] g = g"
| "loadTreesFrom i (d # ds) g = loadTreesFrom (Suc i) ds (addTree i d g)"

definition loadTrees :: "draw list \<Rightarrow> game \<Rightarrow> game" where
  "loadTrees ds g = loadTreesFrom 0 ds g"

definition addWarehouse :: "draw \<Rightarrow> game \<Rightarrow> game" where
  "addWarehouse d g =
     (let w = \<lparr>oref = nextRef g, otype = ''warehouse'', oid = None,
               oposition = (drawX d, drawGroundY d + 0.8, drawZ d), orotY = drawRotY d,
               oscale = 120\<rparr>;
          dp = decorationPositions g
      in g\<lparr>scene := scene g @ [oref w],
           collidables := collidables g @ [w],
           decorationPositions := dp\<lparr>dwarehouses := dwarehouses dp @
             [\<lparr>pid = None, px = drawX d, py = drawGroundY d + 0.8, pz = drawZ d,
               protY = drawRotY d, pscale = None\<rparr>]\<rparr>,
           nextRef := Suc (nextRef g)\<rparr>)"

definition loadWarehouse :: "draw list \<Rightarrow> game \<Rightarrow> game" where
  "loadWarehouse ds g = foldl (\<lambda>s d. addWarehouse d s) g ds"

definition addBarrier :: "draw \<Rightarrow> game \<Rightarrow> game" where
  "addBarrier d g =
     (let b = \<lparr>oref = nextRef g, otype = ''barrier'', oid = None,
               oposition = (drawX d, drawGroundY d - 0.4, drawZ d), orotY = drawRotY d,
               oscale = 2.2\<rparr>;
          dp = decorationPositions g
      in g\<lparr>scene := scene g @ [oref b],
           collidables := collidables g @ [b],
           barriers := barriers g @ [b],
           decorationPositions := dp\<lparr>dbarriers := dbarriers dp @
             [\<lparr>pid = None, px = drawX d, py = drawGroundY d - 0.4, pz = drawZ d,
               protY = drawRotY d, pscale = None\<rparr>]\<rparr>,
           nextRef := Suc (nextRef g)\<rparr>)"

definition loadBarriers :: "draw list \<Rightarrow> game \<Rightarrow> game" where
  "loadBarriers ds g = foldl (\<lambda>s d. addBarrier d s) g ds"

definition orEmpty :: "'a list option \<Rightarrow> 'a list" where
  "orEmpty v = (case v of None \<Rightarrow> [] | Some xs \<Rightarrow> xs)"

definition syncMapFromHost :: "mapdata \<Rightarrow> game \<Rightarrow> game" where
  "syncMapFromHost mapData g =
     g\<lparr>decorationPositions :=
         \<lparr>dwarehouses = orEmpty (mwarehouses mapData),
          dtrees = orEmpty (mtrees mapData),
          dbarriers = orEmpty (mbarriers mapData)\<rparr>\<rparr>"

section \<open>game.js: starting a match\<close>

text \<open>
  \<^verbatim>\<open>createTankGroup\<close> adds the new group to the scene. The meshes \<^verbatim>\<open>loadTankModels\<close> hangs
  under a tank, and the texts \<^verbatim>\<open>updateScoreboard\<close> and \<^verbatim>\<open>showWinMessage\<close> write on the
  page, are read by no handler, cannot throw, and are left out.
\<close>

definition createTankGroup :: "vec3 \<Rightarrow> game \<Rightarrow> tankobj \<times> game" where
  "createTankGroup p g =
     (let tank = \<lparr>tref = nextRef g, tposition = p\<rparr>
      in (tank, g\<lparr>scene := scene g @ [tref tank], nextRef := Suc (nextRef g)\<rparr>))"

definition createTanks :: "game \<Rightarrow> game" where
  "createTanks g =
     (case createTankGroup (- 50, 30, 0) g of (t1, g1) \<Rightarrow>
      case createTankGroup (50, 30, 0) (g1\<lparr>player1Tank := Some t1\<rparr>) of (t2, g2) \<Rightarrow>
        let g3 = g2\<lparr>player2Tank := Some t2\<rparr>
        in if role g3 = Some HOST
           then g3\<lparr>localPlayer := Some P1, remotePlayer := Some P2\<rparr>
           else g3\<lparr>localPlayer := Some P2, remotePlayer := Some P1\<rparr>)"

definition startGame :: "game \<Rightarrow> game" where
  "startGame g =
     (let g1 = createTanks (g\<lparr>gameStarted := True\<rparr>);
          g2 = g1\<lparr>gameUIShown := True, isRoundActive := True\<rparr>
      in multiplayer_send (JStr ''ready'') (JObj []) g2)"

section \<open>game.js: damage, death and the win condition\<close>

definition updateHealthBar :: "game \<Rightarrow> game outcome" where
  "updateHealthBar g =
     (case healthBarFill g of
        None \<Rightarrow> Normal g
      | Some w \<Rightarrow>
          (case localPlayer g of
             None \<Rightarrow> Thrown g
           | Some l \<Rightarrow>
               Normal (g\<lparr>healthBarFill := Some (health (playerOf g l) / maxPlayerHealth * 100)\<rparr>)))"

definition triggerFinalCutscene :: "game \<Rightarrow> game" where
  "triggerFinalCutscene g = g\<lparr>isControlsLocked := True, gameUIShown := False, cutscenePlaying := True\<rparr>"

definition checkWinCondition :: "game \<Rightarrow> game outcome" where
  "checkWinCondition g =
     (case localPlayer g of
        None \<Rightarrow> Thrown g
      | Some l \<Rightarrow>
          if winThreshold g \<le> enat (score (playerOf g l)) then Normal (triggerFinalCutscene g)
          else
            (case remotePlayer g of
               None \<Rightarrow> Thrown g
             | Some r \<Rightarrow>
                 if winThreshold g \<le> enat (score (playerOf g r)) then Normal (triggerFinalCutscene g)
                 else Normal g))"

definition addScore :: "pref \<Rightarrow> game \<Rightarrow> game" where
  "addScore p g = setPlayer p ((playerOf g p)\<lparr>score := Suc (score (playerOf g p))\<rparr>) g"

definition handleLocalDeath :: "game \<Rightarrow> game outcome" where
  "handleLocalDeath g =
     (let g1 = multiplayer_send (JStr ''death'') (JObj []) g
      in case remotePlayer g1 of
           None \<Rightarrow> Thrown g1
         | Some r \<Rightarrow>
             let g2 = addScore r g1
             in (case localPlayer g2 of
                   None \<Rightarrow> Thrown g2
                 | Some l \<Rightarrow>
                     and_then (checkWinCondition g2)
                       (\<lambda>g3. Normal (g3\<lparr>pendingRespawns := Suc (pendingRespawns g3)\<rparr>))))"

definition handleRemoteDeath :: "game \<Rightarrow> game outcome" where
  "handleRemoteDeath g =
     (case localPlayer g of
        None \<Rightarrow> Thrown g
      | Some l \<Rightarrow>
          let g1 = addScore l g
          in (case remotePlayer g1 of
                None \<Rightarrow> Thrown g1
              | Some r \<Rightarrow> checkWinCondition g1))"

definition respawnLocalPlayer :: "game \<Rightarrow> game outcome" where
  "respawnLocalPlayer g =
     (case localPlayer g of
        None \<Rightarrow> Thrown g
      | Some l \<Rightarrow>
          and_then (updateHealthBar (setPlayer l ((playerOf g l)\<lparr>health := maxPlayerHealth\<rparr>) g))
            (\<lambda>g1. Normal
               (case tankOf g1 l of
                  None \<Rightarrow> g1
                | Some t \<Rightarrow>
                    setTank l (Some (t\<lparr>tposition := (if role g1 = Some HOST then - 50 else 50, 30, 0)\<rparr>)) g1)))"

text \<open>
  The block that \<^verbatim>\<open>handleRemoteDamage\<close> and \<^verbatim>\<open>checkExplosionDamage\<close> both contain, once
  for each player: subtract, floor at zero, redraw the bar, and declare the death.
\<close>

definition damageOwn :: "pref \<Rightarrow> real \<Rightarrow> game \<Rightarrow> game outcome" where
  "damageOwn p d g =
     (let g1 = setPlayer p ((playerOf g p)\<lparr>health := max 0 (health (playerOf g p) - d)\<rparr>) g
      in and_then (updateHealthBar g1)
           (\<lambda>g2. if health (playerOf g2 p) \<le> 0 then handleLocalDeath g2 else Normal g2))"

definition handleRemoteDamage :: "real \<Rightarrow> string \<Rightarrow> game \<Rightarrow> game outcome" where
  "handleRemoteDamage d target g =
     (if target = ''player1'' \<and> role g = Some HOST then damageOwn P1 d g
      else if target = ''player2'' \<and> role g = Some CLIENT then damageOwn P2 d g
      else Normal g)"

section \<open>game.js: explosions and bullets\<close>

text \<open>
  \<^verbatim>\<open>spawnWoodParticles\<close> puts \<open>particleDraw\<close> new meshes in the scene and in \<^verbatim>\<open>particles\<close>
  (its geometry and material are set when the module loads). \<open>hitTank\<close> is one of the two
  blocks of \<^verbatim>\<open>checkExplosionDamage\<close> that test a tank, \<open>blastBody\<close> the body of its loop
  over the collidables, which runs from the last index down to 0.
\<close>

definition spawnWoodParticles :: "game \<Rightarrow> game" where
  "spawnWoodParticles g =
     (let fresh = [nextRef g ..< nextRef g + particleDraw g]
      in g\<lparr>scene := scene g @ fresh, particles := particles g @ fresh,
           nextRef := nextRef g + particleDraw g\<rparr>)"

definition blastDamage :: "real \<Rightarrow> real" where
  "blastDamage distance = explosionMaxDamage * max 0 (1 - distance / explosionBlastRadius)"

definition hitTank :: "pref \<Rightarrow> role \<Rightarrow> string \<Rightarrow> vec3 \<Rightarrow> game \<Rightarrow> game outcome" where
  "hitTank p owner target pos g =
     (case tankOf g p of
        None \<Rightarrow> Normal g
      | Some t \<Rightarrow>
          let distance = distanceTo pos (tposition t)
          in if distance < explosionBlastRadius
             then if role g = Some owner then damageOwn p (blastDamage distance) g
                  else Normal (multiplayer_send (JStr ''damage'')
                                 (JObj [(''damage'', JNum (blastDamage distance)), (''target'', JStr target)]) g)
             else Normal g)"

definition idval :: "string option \<Rightarrow> jsval" where
  "idval v = (case v of None \<Rightarrow> JUndefined | Some s \<Rightarrow> JStr s)"

definition blastBody :: "vec3 \<Rightarrow> nat \<Rightarrow> game \<Rightarrow> game outcome" where
  "blastBody pos i g =
     (if i < length (collidables g)
      then
        let collidable = collidables g ! i
        in if otype collidable = ''tree''
           then if distanceTo pos (oposition collidable) < explosionBlastRadius + 5
                then
                  let g1 = spawnWoodParticles g;
                      g2 = g1\<lparr>scene := scene_remove (oref collidable) (scene g1),
                              collidables := splice_at i (collidables g1)\<rparr>;
                      g3 = (case indexOf (trees g2) collidable of
                              None \<Rightarrow> g2
                            | Some k \<Rightarrow> g2\<lparr>trees := splice_at k (trees g2)\<rparr>)
                  in Normal (multiplayer_send JUndefined (JObj [(''treeId'', idval (oid collidable))]) g3)
                else Normal g
           else Normal g
      else Thrown g)"

fun blastLoop :: "vec3 \<Rightarrow> nat \<Rightarrow> game \<Rightarrow> game outcome" where
  "blastLoop pos 0 g = Normal g"
| "blastLoop pos (Suc i) g = and_then (blastBody pos i g) (blastLoop pos i)"

definition checkExplosionDamage :: "vec3 \<Rightarrow> game \<Rightarrow> game outcome" where
  "checkExplosionDamage pos g =
     and_then (and_then (hitTank P1 HOST ''player1'' pos g) (hitTank P2 CLIENT ''player2'' pos))
       (\<lambda>g1. blastLoop pos (length (collidables g1)) g1)"

definition createExplosion :: "vec3 \<Rightarrow> bool \<Rightarrow> game \<Rightarrow> game outcome" where
  "createExplosion pos local g =
     (if \<not> explosionSpriteSheet g \<or> \<not> explosionSoundBuffer g then Normal g
      else
        let helper = nextRef g;
            e = \<lparr>eref = Suc (nextRef g), eposition = pos, eage = 0, currentFrame = 0,
                 audioHelper = helper\<rparr>;
            g1 = g\<lparr>scene := scene g @ [helper, eref e], explosions := explosions g @ [e],
                    nextRef := nextRef g + 2\<rparr>
        in if local then checkExplosionDamage pos g1 else Normal g1)"

definition spawnBullet :: "vec3 \<Rightarrow> vec3 \<Rightarrow> bool \<Rightarrow> game \<Rightarrow> game" where
  "spawnBullet pos direction local g =
     (let b = \<lparr>bref = nextRef g, bposition = pos, bvelocity = multiplyScalar bulletSpeed direction,
                age = 0, lastPosition = pos, isLocal = local\<rparr>
      in g\<lparr>scene := scene g @ [bref b], bullets := bullets g @ [b], nextRef := Suc (nextRef g)\<rparr>)"

definition spawnRemoteBullet :: "vec3 \<Rightarrow> vec3 \<Rightarrow> game \<Rightarrow> game" where
  "spawnRemoteBullet pos direction g = spawnBullet pos direction False g"

definition removeBullet :: "bullet \<Rightarrow> nat \<Rightarrow> game \<Rightarrow> game" where
  "removeBullet b i g = g\<lparr>scene := scene_remove (bref b) (scene g), bullets := splice_at i (bullets g)\<rparr>"

text \<open>
  \<^verbatim>\<open>bulletRaycaster.intersectObjects([ground, ...collidables], true)\<close> is the parameter \<open>rc\<close>:
  from the ray's origin, direction and reach and the collidables it gives the first
  intersection point, if any.
\<close>

type_synonym raycast = "vec3 \<Rightarrow> vec3 \<Rightarrow> real \<Rightarrow> obj list \<Rightarrow> vec3 option"

definition moveBullet :: "real \<Rightarrow> bullet \<Rightarrow> bullet" where
  "moveBullet delta b =
     (let v = (case bvelocity b of (vx, vy, vz) \<Rightarrow> (vx, vy - bulletGravityStrength * delta, vz))
      in b\<lparr>lastPosition := bposition b, bvelocity := v,
           bposition := vadd (bposition b) (multiplyScalar delta v)\<rparr>)"

definition bulletBody :: "raycast \<Rightarrow> real \<Rightarrow> nat \<Rightarrow> game \<Rightarrow> game outcome" where
  "bulletBody rc delta i g =
     (if i < length (bullets g)
      then
        let b = moveBullet delta (bullets g ! i);
            g1 = g\<lparr>bullets := (bullets g)[i := b]\<rparr>;
            travel = vsub (bposition b) (lastPosition b);
            hit = (if vlength travel > 0
                   then rc (lastPosition b) (normalize travel) (vlength travel) (collidables g1)
                   else None)
        in case hit of
             Some point \<Rightarrow>
               and_then (createExplosion point (isLocal b) g1) (\<lambda>g2. Normal (removeBullet b i g2))
           | None \<Rightarrow>
               let b' = b\<lparr>age := age b + delta\<rparr>;
                   g2 = g1\<lparr>bullets := (bullets g1)[i := b']\<rparr>
               in Normal (if age b' > 5 then removeBullet b' i g2 else g2)
      else Thrown g)"

fun bulletLoop :: "raycast \<Rightarrow> real \<Rightarrow> nat \<Rightarrow> game \<Rightarrow> game outcome" where
  "bulletLoop rc delta 0 g = Normal g"
| "bulletLoop rc delta (Suc i) g = and_then (bulletBody rc delta i g) (bulletLoop rc delta i)"

definition updateBullets :: "raycast \<Rightarrow> real \<Rightarrow> game \<Rightarrow> game outcome" where
  "updateBullets rc delta g = bulletLoop rc delta (length (bullets g)) g"

section \<open>game.js: messages from the other peer\<close>

text \<open>The body of the \<^verbatim>\<open>if\<close> in \<^verbatim>\<open>handleRemoteTreeDestruction\<close>, at the index the loop stopped at.\<close>

definition destroyAt :: "nat \<Rightarrow> game \<Rightarrow> game" where
  "destroyAt i g =
     (let g1 = g\<lparr>scene := scene_remove (oref (trees g ! i)) (scene g),
                  trees := splice_at i (trees g)\<rparr>;
          colIdx = (if i < length (trees g1) then indexOf (collidables g1) (trees g1 ! i) else None)
      in case colIdx of
           None \<Rightarrow> g1
         | Some k \<Rightarrow> g1\<lparr>collidables := splice_at k (collidables g1)\<rparr>)"

fun destroyLoop :: "string \<Rightarrow> nat \<Rightarrow> game \<Rightarrow> game outcome" where
  "destroyLoop treeId 0 g = Normal g"
| "destroyLoop treeId (Suc i) g =
     (if i < length (trees g)
      then if oid (trees g ! i) = Some treeId then Normal (destroyAt i g)
           else destroyLoop treeId i g
      else Thrown g)"

definition handleRemoteTreeDestruction :: "string \<Rightarrow> game \<Rightarrow> game outcome" where
  "handleRemoteTreeDestruction treeId g = destroyLoop treeId (length (trees g)) g"

definition updateRemotePlayer :: "remote_state \<Rightarrow> game \<Rightarrow> game outcome" where
  "updateRemotePlayer d g =
     (case remotePlayer g of
        None \<Rightarrow> Thrown g
      | Some r \<Rightarrow>
          (case tankOf g r of
             None \<Rightarrow> Normal g
           | Some t \<Rightarrow> Normal (g\<lparr>remotePlayerState := d\<lparr>lastUpdate := clock (webrtcManager g)\<rparr>\<rparr>)))"

definition setInfo :: "string \<Rightarrow> string \<Rightarrow> player \<Rightarrow> player" where
  "setInfo u c p = p\<lparr>username := u, color := c\<rparr>"

fun handleNetworkMessage :: "message \<Rightarrow> game \<Rightarrow> game outcome" where
  "handleNetworkMessage (PlayerInfo u c) g =
     Normal (if role g = Some HOST then g\<lparr>player2 := setInfo u c (player2 g)\<rparr>
             else g\<lparr>player1 := setInfo u c (player1 g)\<rparr>)"
| "handleNetworkMessage (GameStart mode mapData) g =
     (let g1 = g\<lparr>gameMode := mode, winThreshold := getWinThreshold mode\<rparr>;
          g2 = (case mapData of None \<Rightarrow> g1 | Some md \<Rightarrow> syncMapFromHost md g1)
      in Normal (startGame g2))"
| "handleNetworkMessage (PlayerUpdate d) g = updateRemotePlayer d g"
| "handleNetworkMessage (BulletSpawn pos direction) g = Normal (spawnRemoteBullet pos direction g)"
| "handleNetworkMessage (Damage d target) g = handleRemoteDamage d target g"
| "handleNetworkMessage Death g = handleRemoteDeath g"
| "handleNetworkMessage RoundEnd g = Normal g"
| "handleNetworkMessage (TreeDestroyed treeId) g = handleRemoteTreeDestruction treeId g"
| "handleNetworkMessage (Other ty) g = Normal g"

section \<open>The listeners game.js puts on the manager, and the menu\<close>

definition emit :: "string \<Rightarrow> game \<Rightarrow> game" where
  "emit ev g = g\<lparr>webrtcManager := (webrtcManager g)\<lparr>emitted := emitted (webrtcManager g) @ [ev]\<rparr>\<rparr>"

definition placementVal :: "placement \<Rightarrow> jsval" where
  "placementVal p =
     JObj [(''id'', idval (pid p)), (''x'', JNum (px p)), (''y'', JNum (py p)), (''z'', JNum (pz p)),
           (''rotY'', JNum (protY p)),
           (''scale'', (case pscale p of None \<Rightarrow> JUndefined | Some s \<Rightarrow> JNum s))]"

definition mapDataVal :: "decorations \<Rightarrow> jsval" where
  "mapDataVal dp =
     JObj [(''warehouses'', JArr (map placementVal (dwarehouses dp))),
           (''trees'', JArr (map placementVal (dtrees dp))),
           (''barriers'', JArr (map placementVal (dbarriers dp)))]"

definition onConnected :: "role option \<Rightarrow> game \<Rightarrow> game" where
  "onConnected r g =
     (let g1 = net_send (JStr ''player_info'')
                 (JObj [(''username'', JStr (fst (playerData g))), (''color'', JStr (snd (playerData g)))]) g
      in if r = Some HOST
         then net_send (JStr ''game_start'')
                (JObj [(''mode'', JStr (gameMode g1)), (''mapData'', mapDataVal (decorationPositions g1))]) g1
         else g1)"

definition onDisconnected :: "game \<Rightarrow> game" where
  "onDisconnected g = g"

definition showMainMenu :: "game \<Rightarrow> game" where
  "showMainMenu g = g\<lparr>menuVisible := True\<rparr>"

text \<open>The handlers \<^verbatim>\<open>setupDataChannel\<close> installs on the channel.\<close>

definition dataChannel_onopen :: "game \<Rightarrow> game" where
  "dataChannel_onopen g =
     (let m = webrtcManager g;
          g1 = g\<lparr>webrtcManager := m\<lparr>isConnected := True, connectionTimeout := False\<rparr>\<rparr>
      in onConnected (mgr_role m) (emit ''connected'' g1))"

definition dataChannel_onclose :: "game \<Rightarrow> game" where
  "dataChannel_onclose g =
     (let g1 = g\<lparr>webrtcManager := (webrtcManager g)\<lparr>isConnected := False\<rparr>\<rparr>
      in onDisconnected (emit ''disconnected'' g1))"

text \<open>
  The platform's part: the client is handed the host's channel (\<^verbatim>\<open>ondatachannel\<close>), the
  channel reaches the open state and its \<^verbatim>\<open>onopen\<close> runs, the channel reaches the closed
  state and its \<^verbatim>\<open>onclose\<close> runs.
\<close>

definition ondatachannel :: "channel \<Rightarrow> game \<Rightarrow> game" where
  "ondatachannel c g = g\<lparr>webrtcManager := (webrtcManager g)\<lparr>dataChannel := Some c\<rparr>\<rparr>"

definition setReadyState :: "ready_state \<Rightarrow> game \<Rightarrow> game" where
  "setReadyState rs g =
     g\<lparr>webrtcManager := (webrtcManager g)\<lparr>dataChannel :=
         map_option (\<lambda>c. c\<lparr>readyState := rs\<rparr>) (dataChannel (webrtcManager g))\<rparr>\<rparr>"

definition channelOpens :: "game \<Rightarrow> game" where
  "channelOpens g = dataChannel_onopen (setReadyState Open g)"

definition channelCloses :: "game \<Rightarrow> game" where
  "channelCloses g = dataChannel_onclose (setReadyState Closed g)"

definition dataChannel_onmessage :: "message \<Rightarrow> game \<Rightarrow> game" where
  "dataChannel_onmessage msg g = state_of (handleNetworkMessage msg (emit ''message'' g))"

definition cancelConnection :: "game \<Rightarrow> game" where
  "cancelConnection g =
     (let m = webrtcManager g;
          g1 = g\<lparr>webrtcManager := m\<lparr>connectionTimeout := False, peerConnection := None,
                    dataChannel := None, isConnected := False, lobbyShown := False\<rparr>\<rparr>
      in showMainMenu (emit ''cancelled'' g1))"

definition menuHost :: "platform \<Rightarrow> string \<Rightarrow> game \<Rightarrow> game" where
  "menuHost pf mode g =
     g\<lparr>gameMode := mode, winThreshold := getWinThreshold mode, role := Some HOST,
       isMultiplayer := True,
       player1 := setInfo (fst (playerData g)) (snd (playerData g)) (player1 g),
       menuVisible := False,
       webrtcManager := startHost pf (webrtcManager g)\<rparr>"

definition menuJoin :: "game \<Rightarrow> game" where
  "menuJoin g =
     g\<lparr>role := Some CLIENT, isMultiplayer := True,
       player2 := setInfo (fst (playerData g)) (snd (playerData g)) (player2 g),
       menuVisible := False,
       webrtcManager := startJoin (webrtcManager g)\<rparr>"

definition menuTestMode :: "game \<Rightarrow> game" where
  "menuTestMode g =
     startGame
       (g\<lparr>isTestMode := True, role := Some HOST, isMultiplayer := False, gameMode := ''bo3'',
          winThreshold := 2,
          player1 := setInfo (fst (playerData g)) (snd (playerData g)) (player1 g),
          player2 := setInfo ''DummyBot'' ''blue'' (player2 g),
          menuVisible := False\<rparr>)"

text \<open>
  The fixed-rate tick of \<^verbatim>\<open>animate\<close> and \<^verbatim>\<open>sendPlayerUpdate\<close>: its two guards and its
  \<^verbatim>\<open>send\<close>; \<open>payload\<close> is the object literal it builds from the local tank's transform.
\<close>

definition sendPlayerUpdate :: "jsval \<Rightarrow> game \<Rightarrow> game outcome" where
  "sendPlayerUpdate payload g =
     (if \<not> isMultiplayer g \<or> isTestMode g then Normal g
      else case localPlayer g of
             None \<Rightarrow> Thrown g
           | Some l \<Rightarrow>
               (case tankOf g l of
                  None \<Rightarrow> Normal g
                | Some t \<Rightarrow> Normal (net_send (JStr ''player_update'') payload g)))"

definition replicationTick :: "jsval \<Rightarrow> real \<Rightarrow> game \<Rightarrow> game outcome" where
  "replicationTick payload delta g =
     (if isMultiplayer g \<and> \<not> isTestMode g \<and> gameStarted g
      then
        let g1 = g\<lparr>lastPlayerUpdateTime := lastPlayerUpdateTime g + delta\<rparr>
        in if lastPlayerUpdateTime g1 \<ge> playerUpdateInterval
           then and_then (sendPlayerUpdate payload g1) (\<lambda>g2. Normal (g2\<lparr>lastPlayerUpdateTime := 0\<rparr>))
           else Normal g1
      else Normal g)"

section \<open>Runs of events\<close>

text \<open>
  What reaches a peer during a match: a frame on the channel (\<^verbatim>\<open>dataChannel.onmessage\<close>
  catches what the handler throws) and an explosion the peer's own bullet causes
  (\<^verbatim>\<open>createExplosion(point, true)\<close>).
\<close>

datatype event = Received message | LocalExplosion vec3

fun step :: "event \<Rightarrow> game \<Rightarrow> game" where
  "step (Received msg) g = dataChannel_onmessage msg g"
| "step (LocalExplosion pos) g = state_of (createExplosion pos True g)"

definition run :: "event list \<Rightarrow> game \<Rightarrow> game" where
  "run evs g = foldl (\<lambda>s e. step e s) g evs"

text \<open>The two death events, as the handlers see them.\<close>

datatype death = LocalDeath | RemoteDeath

fun onDeath :: "death \<Rightarrow> game \<Rightarrow> game outcome" where
  "onDeath LocalDeath g = handleLocalDeath g"
| "onDeath RemoteDeath g = handleRemoteDeath g"

definition deaths :: "death list \<Rightarrow> game \<Rightarrow> game" where
  "deaths ds g = foldl (\<lambda>s d. state_of (onDeath d s)) g ds"

section \<open>What the properties speak of\<close>

text \<open>The player a peer owns (the host owns player1, the client player2), and the events that
  may change that player's health: an explosion of the peer's own, or a damage message whose
  target the peer owns.\<close>

fun owned :: "role option \<Rightarrow> pref option" where
  "owned (Some HOST) = Some P1"
| "owned (Some CLIENT) = Some P2"
| "owned None = None"

fun mayDamage :: "role option \<Rightarrow> event \<Rightarrow> bool" where
  "mayDamage r (LocalExplosion pos) = True"
| "mayDamage r (Received (Damage d target)) =
     (r = Some HOST \<and> target = ''player1'' \<or> r = Some CLIENT \<and> target = ''player2'')"
| "mayDamage r (Received msg) = False"

definition healths :: "game \<Rightarrow> real \<times> real" where
  "healths g = (health (player1 g), health (player2 g))"

text \<open>A peer on which \<^verbatim>\<open>createTanks\<close> has run; the two scores added; a score at the threshold.\<close>

definition inMatch :: "game \<Rightarrow> bool" where
  "inMatch g =
     (localPlayer g = Some P1 \<and> remotePlayer g = Some P2 \<or>
      localPlayer g = Some P2 \<and> remotePlayer g = Some P1)"

definition total :: "game \<Rightarrow> nat" where
  "total g = score (player1 g) + score (player2 g)"

definition reached :: "game \<Rightarrow> bool" where
  "reached g =
     (winThreshold g \<le> enat (score (player1 g)) \<or> winThreshold g \<le> enat (score (player2 g)))"

text \<open>What a remote explosion must leave alone.\<close>

definition core :: "game \<Rightarrow> player \<times> player \<times> obj list \<times> obj list" where
  "core g = (player1 g, player2 g, trees g, collidables g)"

section \<open>Sample sessions\<close>

definition openManager :: manager where
  "openManager =
     (newManager 1000)\<lparr>isConnected := True, dataChannel := Some \<lparr>readyState = Open, sent = []\<rparr>\<rparr>"

definition closingManager :: manager where
  "closingManager =
     (newManager 1000)\<lparr>isConnected := True, dataChannel := Some \<lparr>readyState = Closing, sent = []\<rparr>\<rparr>"

definition samplePlatform :: platform where
  "samplePlatform =
     \<lparr>grammar = (\<lambda>s. Some (JStr s)), acceptsRemote = (\<lambda>v. True), answerFor = (\<lambda>v. Some v),
      offerMade = Some (JObj [(''type'', JStr ''offer'')])\<rparr>"

text \<open>A host: the menu's host button, then the channel opens. Nothing on this path calls
  \<^verbatim>\<open>startGame\<close>.\<close>

definition hostConnected :: game where
  "hostConnected =
     channelOpens
       (menuHost samplePlatform ''bo3'' (showMainMenu (newGame (Some 100) (''alice'', ''red'') 12 1000)))"

text \<open>The same host after two damage messages of 40 for player1, sent by a client whose
  shells burst two units from the host's tank.\<close>

definition hostHit :: game where
  "hostHit = run [Received (Damage 40 ''player1''), Received (Damage 40 ''player1'')] hostConnected"

text \<open>A client: the menu's join button, the offer pasted, the host's channel received and
  opened; then the host's \<^verbatim>\<open>game_start\<close> arrives.\<close>

definition clientConnectedFrom :: "game \<Rightarrow> game" where
  "clientConnectedFrom g0 =
     (let g = menuJoin (showMainMenu g0);
          g1 = g\<lparr>webrtcManager := handleOfferSubmit samplePlatform ''{}'' (webrtcManager g)\<rparr>
      in channelOpens (ondatachannel \<lparr>readyState = Connecting, sent = []\<rparr> g1))"

definition clientInMatch :: game where
  "clientInMatch =
     dataChannel_onmessage (GameStart ''bo3'' None)
       (clientConnectedFrom (newGame (Some 100) (''bob'', ''blue'') 12 2000))"

definition localDraw :: draw where
  "localDraw = \<lparr>drawX = 10, drawZ = 10, drawRotY = 0, drawGroundY = 0, drawScale = 1\<rparr>"

definition hostPlacement :: placement where
  "hostPlacement =
     \<lparr>pid = Some ''tree_0'', px = - 100, py = 2, pz = 40, protY = 1, pscale = Some 1\<rparr>"

definition hostMap :: mapdata where
  "hostMap = \<lparr>mwarehouses = Some [], mtrees = Some [hostPlacement], mbarriers = Some []\<rparr>"

definition clientWithTree :: game where
  "clientWithTree =
     clientConnectedFrom (loadTrees [localDraw] (newGame (Some 100) (''bob'', ''blue'') 12 2000))"

text \<open>The client once its explosion sprite and sound have loaded, with a bullet the host
  fired; a ray cast that hits at once.\<close>

definition clientReady :: game where
  "clientReady = clientInMatch\<lparr>explosionSpriteSheet := True, explosionSoundBuffer := True\<rparr>"

definition remoteShot :: game where
  "remoteShot = spawnRemoteBullet (0, 5, 0) (1, 0, 0) clientReady"

definition hitAtOrigin :: raycast where
  "hitAtOrigin origin direction reach objects = Some origin"

text \<open>A page whose tree loader drew three trees.\<close>

definition forest :: game where
  "forest =
     loadTrees
       [\<lparr>drawX = 10, drawZ = 10, drawRotY = 0, drawGroundY = 0, drawScale = 1\<rparr>,
        \<lparr>drawX = 20, drawZ = - 30, drawRotY = 1, drawGroundY = 2, drawScale = 0.9\<rparr>,
        \<lparr>drawX = - 40, drawZ = 5, drawRotY = 2, drawGroundY = 1, drawScale = 0.8\<rparr>]
       (newGame (Some 100) (''bob'', ''blue'') 12 2000)"

definition sampleEvents :: "event list" where
  "sampleEvents =
     [Received (PlayerUpdate \<lparr>position = (1, 2, 3), rotation = (0, 0, 0, 1), headRotation = 0,
        turretRotation = 0, velocity = (0, 0, 0), lastUpdate = 0\<rparr>),
      Received (Damage 30 ''player1''),
      Received (BulletSpawn (0, 5, 0) (1, 0, 0)),
      Received Death,
      Received (TreeDestroyed ''tree_7''),
      Received (PlayerInfo ''alice'' ''red''),
      Received (Other ''ready'')]"

section \<open>Lists and control flow\<close>

lemma indexOf_Some: "indexOf xs y = Some k \<Longrightarrow> k < length xs \<and> xs ! k = y"
proof (induction xs arbitrary: k)
  case Nil
  then show ?case by simp
next
  case (Cons x xs)
  then show ?case by (cases "x = y") auto
qed

lemma length_splice_at: "i < length xs \<Longrightarrow> length (splice_at i xs) = length xs - 1"
  by (simp add: splice_at_def)

lemma splice_at_nth: "Suc i < length xs \<Longrightarrow> splice_at i xs ! i = xs ! Suc i"
  by (simp add: splice_at_def nth_append)

lemma splice_at_keeps:
  assumes "x \<in> set xs" "k < length xs" "xs ! k \<noteq> x"
  shows "x \<in> set (splice_at k xs)"
proof -
  from assms(1) obtain j where j: "j < length xs" "xs ! j = x" by (auto simp: in_set_conv_nth)
  with assms(3) have "j \<noteq> k" by auto
  then consider "j < k" | "k < j" by linarith
  then show ?thesis
  proof cases
    case 1
    then have "take k xs ! j = x" using j by simp
    moreover have "j < length (take k xs)" using 1 assms(2) by simp
    ultimately have "x \<in> set (take k xs)" by (metis nth_mem)
    then show ?thesis by (simp add: splice_at_def)
  next
    case 2
    then have "drop (Suc k) xs ! (j - Suc k) = x" using j by simp
    moreover have "j - Suc k < length (drop (Suc k) xs)" using 2 j by simp
    ultimately have "x \<in> set (drop (Suc k) xs)" by (metis nth_mem)
    then show ?thesis by (simp add: splice_at_def)
  qed
qed

lemma distinct_map_nth:
  "distinct (map f xs) \<Longrightarrow> i < length xs \<Longrightarrow> j < length xs \<Longrightarrow> j \<noteq> i \<Longrightarrow> f (xs ! j) \<noteq> f (xs ! i)"
  using nth_eq_iff_index_eq [of "map f xs" j i] by simp

lemma splice_at_ids:
  assumes "distinct (map f xs)" "i < length xs"
  shows "list_all (\<lambda>x. f x \<noteq> f (xs ! i)) (splice_at i xs)"
proof -
  have a: "f x \<noteq> f (xs ! i)" if "x \<in> set (take i xs)" for x
  proof -
    from that obtain j where "j < length (take i xs)" "take i xs ! j = x"
      by (auto simp: in_set_conv_nth)
    then have "j < length xs" "j \<noteq> i" "xs ! j = x" using assms(2) by simp_all
    with distinct_map_nth [OF assms, of j] show ?thesis by simp
  qed
  have b: "f x \<noteq> f (xs ! i)" if "x \<in> set (drop (Suc i) xs)" for x
  proof -
    from that obtain j where "j < length (drop (Suc i) xs)" "drop (Suc i) xs ! j = x"
      by (auto simp: in_set_conv_nth)
    then have "Suc i + j < length xs" "Suc i + j \<noteq> i" "xs ! (Suc i + j) = x" by simp_all
    with distinct_map_nth [OF assms, of "Suc i + j"] show ?thesis by simp
  qed
  from a b show ?thesis by (auto simp: splice_at_def list_all_iff)
qed

lemma list_all_splice_at: "list_all P xs \<Longrightarrow> list_all P (splice_at i xs)"
  by (auto simp: splice_at_def list_all_iff dest: in_set_takeD in_set_dropD)

lemma list_all_update: "list_all P xs \<Longrightarrow> P x \<Longrightarrow> list_all P (xs[i := x])"
  by (auto simp: list_all_iff dest: set_update_subset_insert [THEN subsetD])

lemma and_then_proj:
  "(\<And>s. pr (state_of (f s)) = pr s) \<Longrightarrow> pr (state_of (and_then x f)) = pr (state_of x)"
  by (cases x) simp_all

text \<open>The definitions that evaluate the sample sessions.\<close>

lemmas session_defs =
  hostConnected_def clientConnectedFrom_def clientInMatch_def clientWithTree_def samplePlatform_def
  channelOpens_def channelCloses_def setReadyState_def ondatachannel_def dataChannel_onopen_def
  dataChannel_onclose_def dataChannel_onmessage_def onConnected_def onDisconnected_def emit_def
  menuHost_def menuJoin_def startHost_def startJoin_def createPeerConnection_def newGame_def
  newManager_def newPlayer_def setInfo_def net_send_def multiplayer_send_def send_def send_try_def
  channel_send_def envelope_def mapDataVal_def placementVal_def handleOfferSubmit_def trim_def
  is_space_def JSON_parse_def json_first_token_def json_ws_def startGame_def createTanks_def
  createTankGroup_def getWinThreshold_def showMainMenu_def Let_def

lemma hostConnected_fields:
  "role hostConnected = Some HOST" "localPlayer hostConnected = None"
  "remotePlayer hostConnected = None" "healthBarFill hostConnected = Some 100"
  "health (player1 hostConnected) = 100" "score (player1 hostConnected) = 0"
  "score (player2 hostConnected) = 0" "isConnected (webrtcManager hostConnected)"
  "gameStarted hostConnected = False"
  by (simp_all add: session_defs)

lemma hostHit_fields:
  "role hostHit = Some HOST" "localPlayer hostHit = None" "healthBarFill hostHit = Some 100"
  "health (player1 hostHit) = 20" "score (player1 hostHit) = 0" "score (player2 hostHit) = 0"
  "pendingRespawns hostHit = 0"
  by (simp_all add: hostHit_def run_def dataChannel_onmessage_def emit_def handleRemoteDamage_def
      damageOwn_def updateHealthBar_def hostConnected_fields session_defs)

lemma clientInMatch_fields:
  "role clientInMatch = Some CLIENT" "localPlayer clientInMatch = Some P2"
  "remotePlayer clientInMatch = Some P1" "healthBarFill clientInMatch = Some 100"
  "health (player2 clientInMatch) = 100" "health (player1 clientInMatch) = 100"
  "score (player1 clientInMatch) = 0" "score (player2 clientInMatch) = 0"
  "winThreshold clientInMatch = 2" "isControlsLocked clientInMatch = False"
  "gameStarted clientInMatch" "isRoundActive clientInMatch" "\<not> menuVisible clientInMatch"
  "isConnected (webrtcManager clientInMatch)"
  by (simp_all add: session_defs)

section \<open>The channel: \<^verbatim>\<open>send\<close>\<close>

text \<open>
  C6. On a session that is not connected or has no data channel, \<^verbatim>\<open>send\<close> returns false and
  leaves everything as it was. On a connected session with a channel it returns true and
  appends exactly one frame, the serialized \<^verbatim>\<open>{type, data, timestamp}\<close> with the current time,
  when the channel's ready state is open and the message can be serialized; when the channel
  is no longer open or \<^verbatim>\<open>JSON.stringify\<close> throws, the \<^verbatim>\<open>catch\<close> makes it return false with
  nothing written. It never throws.
\<close>

theorem send_contract:
  "(\<not> isConnected m \<or> dataChannel m = None \<longrightarrow> send ty d m = (False, m)) \<and>
   (isConnected m \<and> dataChannel m = Some c \<longrightarrow>
      (let message = envelope ty (if d = JUndefined then JObj [] else d) (clock m)
       in send ty d m =
            (if readyState c = Open \<and> serializable message
             then (True, m\<lparr>dataChannel := Some (c\<lparr>sent := sent c @ [Frame message]\<rparr>)\<rparr>)
             else (False, m))))"
  by (auto simp: send_def send_try_def channel_send_def Let_def split: option.splits)

theorem send_contract_witness:
  "send (JStr ''damage'') (JObj [(''damage'', JNum 30), (''target'', JStr ''player2'')]) (newManager 1000)
     = (False, newManager 1000) \<and>
   send (JStr ''damage'') (JObj [(''damage'', JNum 30), (''target'', JStr ''player2'')]) openManager
     = (True, openManager\<lparr>dataChannel := Some \<lparr>readyState = Open, sent =
          [Frame (JObj [(''type'', JStr ''damage''),
                        (''data'', JObj [(''damage'', JNum 30), (''target'', JStr ''player2'')]),
                        (''timestamp'', JNum 1000)])]\<rparr>\<rparr>)"
  using send_contract [of "newManager 1000" "JStr ''damage''"
          "JObj [(''damage'', JNum 30), (''target'', JStr ''player2'')]"]
        send_contract [of openManager "JStr ''damage''"
          "JObj [(''damage'', JNum 30), (''target'', JStr ''player2'')]" "\<lparr>readyState = Open, sent = []\<rparr>"]
  by (simp add: openManager_def newManager_def envelope_def)

text \<open>
  The claim as stated fails: a connected session whose channel is closing writes nothing and
  gets false, and so does an open one asked to send a value that cannot be serialized.
\<close>

theorem send_open_counterexample:
  "isConnected closingManager \<and> dataChannel closingManager \<noteq> None \<and>
   send (JStr ''player_update'') (JObj []) closingManager = (False, closingManager) \<and>
   isConnected openManager \<and> dataChannel openManager = Some \<lparr>readyState = Open, sent = []\<rparr> \<and>
   send (JStr ''player_update'') (JObj [(''headRotation'', JBigInt 1)]) openManager = (False, openManager)"
  by (simp add: send_def send_try_def channel_send_def closingManager_def openManager_def
      newManager_def envelope_def)

section \<open>Negotiation: a malformed offer\<close>

text \<open>
  C7. When the text the Responder submits does not parse, \<^verbatim>\<open>handleOfferSubmit\<close> returns with the
  manager as it was except for the status line, which reports the error (the prompt to paste
  an offer when the text is blank, the invalid-offer message otherwise): no peer connection
  is created, the channel, the connected flag, the role and the timeout are untouched, and a
  new submission is possible.
\<close>

theorem malformed_offer_rejected:
  assumes "JSON_parse (grammar pf) (trim input) = None"
  shows "handleOfferSubmit pf input m =
           m\<lparr>lobbyStatus := (if trim input = [] then ''Please paste the Offer JSON from the host.''
                              else invalidOffer)\<rparr> \<and>
         peerConnection (handleOfferSubmit pf input m) = peerConnection m \<and>
         dataChannel (handleOfferSubmit pf input m) = dataChannel m \<and>
         isConnected (handleOfferSubmit pf input m) = isConnected m"
  using assms by (simp add: handleOfferSubmit_def Let_def)

theorem malformed_offer_rejected_witness:
  "JSON_parse (grammar samplePlatform) (trim ''not-json'') = None \<and>
   handleOfferSubmit samplePlatform ''not-json'' (startJoin (newManager 0)) =
     (startJoin (newManager 0))\<lparr>lobbyStatus := ''Invalid Offer JSON or connection failed. Please try again.''\<rparr> \<and>
   peerConnection (handleOfferSubmit samplePlatform ''not-json'' (startJoin (newManager 0))) = None"
proof -
  have p: "JSON_parse (grammar samplePlatform) (trim ''not-json'') = None"
    by (simp add: JSON_parse_def json_first_token_def json_ws_def trim_def is_space_def)
  have t: "trim ''not-json'' \<noteq> []"
    by (simp add: trim_def is_space_def)
  show ?thesis
    using p t malformed_offer_rejected [OF p, of "startJoin (newManager 0)"]
    by (simp add: invalidOffer_def startJoin_def newManager_def)
qed

text \<open>The host's side of the same: an answer that does not parse changes the status line only.\<close>

lemma malformed_answer_rejected:
  assumes "JSON_parse (grammar pf) (trim input) = None"
  shows "handleAnswerSubmit pf input m =
           m\<lparr>lobbyStatus := (if trim input = [] then ''Please paste the Answer JSON from your opponent.''
                              else invalidAnswer)\<rparr>"
  using assms by (simp add: handleAnswerSubmit_def Let_def)

section \<open>What each handler leaves alone\<close>

lemma multiplayer_send_frame:
  "role (multiplayer_send ty d g) = role g"
  "player1 (multiplayer_send ty d g) = player1 g"
  "player2 (multiplayer_send ty d g) = player2 g"
  "localPlayer (multiplayer_send ty d g) = localPlayer g"
  "remotePlayer (multiplayer_send ty d g) = remotePlayer g"
  "trees (multiplayer_send ty d g) = trees g"
  "collidables (multiplayer_send ty d g) = collidables g"
  "winThreshold (multiplayer_send ty d g) = winThreshold g"
  "isControlsLocked (multiplayer_send ty d g) = isControlsLocked g"
  by (simp_all add: multiplayer_send_def net_send_def)

lemma checkWinCondition_frame:
  "role (state_of (checkWinCondition g)) = role g"
  "player1 (state_of (checkWinCondition g)) = player1 g"
  "player2 (state_of (checkWinCondition g)) = player2 g"
  "localPlayer (state_of (checkWinCondition g)) = localPlayer g"
  "remotePlayer (state_of (checkWinCondition g)) = remotePlayer g"
  by (simp_all add: checkWinCondition_def triggerFinalCutscene_def split: option.splits)

lemma addScore_frame:
  "role (addScore p g) = role g"
  "health (player1 (addScore p g)) = health (player1 g)"
  "health (player2 (addScore p g)) = health (player2 g)"
  "localPlayer (addScore p g) = localPlayer g"
  "remotePlayer (addScore p g) = remotePlayer g"
  "winThreshold (addScore p g) = winThreshold g"
  "isControlsLocked (addScore p g) = isControlsLocked g"
  by (cases p; simp add: addScore_def)+

lemmas score_frame = multiplayer_send_frame checkWinCondition_frame addScore_frame

lemma handleLocalDeath_frame:
  "role (state_of (handleLocalDeath g)) = role g"
  "health (player1 (state_of (handleLocalDeath g))) = health (player1 g)"
  "health (player2 (state_of (handleLocalDeath g))) = health (player2 g)"
  by (simp_all add: handleLocalDeath_def Let_def and_then_proj score_frame split: option.splits)

lemma handleRemoteDeath_frame:
  "role (state_of (handleRemoteDeath g)) = role g"
  "health (player1 (state_of (handleRemoteDeath g))) = health (player1 g)"
  "health (player2 (state_of (handleRemoteDeath g))) = health (player2 g)"
  by (simp_all add: handleRemoteDeath_def Let_def score_frame split: option.splits)

lemma updateHealthBar_frame:
  "role (state_of (updateHealthBar g)) = role g"
  "player1 (state_of (updateHealthBar g)) = player1 g"
  "player2 (state_of (updateHealthBar g)) = player2 g"
  "localPlayer (state_of (updateHealthBar g)) = localPlayer g"
  "remotePlayer (state_of (updateHealthBar g)) = remotePlayer g"
  by (simp_all add: updateHealthBar_def split: option.splits)

lemmas death_frame = handleLocalDeath_frame handleRemoteDeath_frame updateHealthBar_frame

lemma damageOwn_role: "role (state_of (damageOwn p d g)) = role g"
  unfolding damageOwn_def Let_def
  by (subst and_then_proj) (auto simp: death_frame, cases p, auto)

lemma damageOwn_other:
  "q \<noteq> p \<Longrightarrow> health (playerOf (state_of (damageOwn p d g)) q) = health (playerOf g q)"
proof -
  assume qp: "q \<noteq> p"
  let ?g1 = "setPlayer p ((playerOf g p)\<lparr>health := max 0 (health (playerOf g p) - d)\<rparr>) g"
  have "health (playerOf (state_of (damageOwn p d g)) q) = health (playerOf (state_of (updateHealthBar ?g1)) q)"
    unfolding damageOwn_def Let_def
    by (rule and_then_proj) (cases q; simp add: death_frame)
  also have "\<dots> = health (playerOf ?g1 q)" by (cases q; simp add: death_frame)
  also have "\<dots> = health (playerOf g q)" using qp by (cases p; cases q; simp)
  finally show ?thesis .
qed

lemma damageOwn_other_simps:
  "health (player1 (state_of (damageOwn P2 d g))) = health (player1 g)"
  "health (player2 (state_of (damageOwn P1 d g))) = health (player2 g)"
  using damageOwn_other [of P1 P2 d g] damageOwn_other [of P2 P1 d g] by simp_all

lemma hitTank_role: "role (state_of (hitTank p ow target pos g)) = role g"
  by (simp add: hitTank_def Let_def damageOwn_role multiplayer_send_frame split: option.splits)

lemma hitTank_other:
  "owned (role g) \<noteq> Some q \<Longrightarrow> owned (Some ow) = Some p \<Longrightarrow>
   health (playerOf (state_of (hitTank p ow target pos g)) q) = health (playerOf g q)"
  by (cases q; cases ow;
      auto simp: hitTank_def Let_def damageOwn_other_simps multiplayer_send_frame split: option.splits)

lemma spawnWoodParticles_frame:
  "role (spawnWoodParticles g) = role g"
  "player1 (spawnWoodParticles g) = player1 g"
  "player2 (spawnWoodParticles g) = player2 g"
  by (simp_all add: spawnWoodParticles_def Let_def)

lemma blastBody_frame:
  "role (state_of (blastBody pos i g)) = role g"
  "player1 (state_of (blastBody pos i g)) = player1 g"
  "player2 (state_of (blastBody pos i g)) = player2 g"
  by (simp_all add: blastBody_def Let_def spawnWoodParticles_frame multiplayer_send_frame
      split: option.splits)

lemma blastLoop_frame:
  "role (state_of (blastLoop pos n g)) = role g"
  "player1 (state_of (blastLoop pos n g)) = player1 g"
  "player2 (state_of (blastLoop pos n g)) = player2 g"
proof (induction n arbitrary: g)
  case 0
  { case 1 show ?case by simp }
  { case 2 show ?case by simp }
  { case 3 show ?case by simp }
next
  case (Suc n)
  { case 1 show ?case using Suc.IH(1) by (simp add: and_then_proj blastBody_frame) }
  { case 2 show ?case using Suc.IH(2) by (simp add: and_then_proj blastBody_frame) }
  { case 3 show ?case using Suc.IH(3) by (simp add: and_then_proj blastBody_frame) }
qed

lemma checkExplosionDamage_role:
  "role (state_of (checkExplosionDamage pos g)) = role g"
  by (simp add: checkExplosionDamage_def and_then_proj blastLoop_frame hitTank_role)

lemma checkExplosionDamage_other:
  assumes "owned (role g) \<noteq> Some q"
  shows "health (playerOf (state_of (checkExplosionDamage pos g)) q) = health (playerOf g q)"
proof -
  let ?a = "hitTank P1 HOST ''player1'' pos g"
  let ?b = "and_then ?a (hitTank P2 CLIENT ''player2'' pos)"
  have ra: "role (state_of ?a) = role g" by (simp add: hitTank_role)
  have a: "health (playerOf (state_of ?a) q) = health (playerOf g q)"
    using assms by (intro hitTank_other) simp_all
  have b: "health (playerOf (state_of ?b) q) = health (playerOf (state_of ?a) q)"
  proof (cases ?a)
    case (Normal s)
    then show ?thesis using assms ra by (simp add: hitTank_other)
  next
    case (Thrown s)
    then show ?thesis by simp
  qed
  have "health (playerOf (state_of (checkExplosionDamage pos g)) q) = health (playerOf (state_of ?b) q)"
    unfolding checkExplosionDamage_def by (rule and_then_proj) (cases q; simp add: blastLoop_frame)
  with a b show ?thesis by simp
qed

lemma checkExplosionDamage_other_simps:
  "owned (role g) \<noteq> Some P1 \<Longrightarrow>
   health (player1 (state_of (checkExplosionDamage pos g))) = health (player1 g)"
  "owned (role g) \<noteq> Some P2 \<Longrightarrow>
   health (player2 (state_of (checkExplosionDamage pos g))) = health (player2 g)"
  using checkExplosionDamage_other [of g P1 pos] checkExplosionDamage_other [of g P2 pos]
  by simp_all

lemma createExplosion_role: "role (state_of (createExplosion pos loc g)) = role g"
  by (simp add: createExplosion_def Let_def checkExplosionDamage_role)

lemma createExplosion_other:
  "owned (role g) \<noteq> Some q \<Longrightarrow>
   health (playerOf (state_of (createExplosion pos loc g)) q) = health (playerOf g q)"
  by (cases q; simp add: createExplosion_def Let_def checkExplosionDamage_other_simps)

lemma startGame_frame:
  "role (startGame g) = role g"
  "player1 (startGame g) = player1 g"
  "player2 (startGame g) = player2 g"
  "trees (startGame g) = trees g"
  "collidables (startGame g) = collidables g"
  "barriers (startGame g) = barriers g"
  "decorationPositions (startGame g) = decorationPositions g"
  by (simp_all add: startGame_def createTanks_def createTankGroup_def Let_def multiplayer_send_def
      net_send_def)

lemma destroyAt_frame:
  "role (destroyAt i g) = role g"
  "player1 (destroyAt i g) = player1 g"
  "player2 (destroyAt i g) = player2 g"
  by (simp_all add: destroyAt_def Let_def split: option.splits)

lemma destroyLoop_frame:
  "role (state_of (destroyLoop t n g)) = role g"
  "player1 (state_of (destroyLoop t n g)) = player1 g"
  "player2 (state_of (destroyLoop t n g)) = player2 g"
  by (induction n) (simp_all add: destroyAt_frame)

lemma updateRemotePlayer_frame:
  "role (state_of (updateRemotePlayer d g)) = role g"
  "player1 (state_of (updateRemotePlayer d g)) = player1 g"
  "player2 (state_of (updateRemotePlayer d g)) = player2 g"
  by (simp_all add: updateRemotePlayer_def split: option.splits)

lemma emit_frame:
  "role (emit ev g) = role g"
  "player1 (emit ev g) = player1 g"
  "player2 (emit ev g) = player2 g"
  by (simp_all add: emit_def)

lemmas message_frame =
  startGame_frame destroyLoop_frame updateRemotePlayer_frame emit_frame death_frame

lemma handleRemoteDamage_role: "role (state_of (handleRemoteDamage d target g)) = role g"
  by (simp add: handleRemoteDamage_def damageOwn_role)

lemma handleNetworkMessage_role: "role (state_of (handleNetworkMessage msg g)) = role g"
  by (cases msg)
     (simp_all add: Let_def syncMapFromHost_def spawnRemoteBullet_def spawnBullet_def
        handleRemoteTreeDestruction_def message_frame handleRemoteDamage_role split: option.splits)

lemma step_role: "role (step e g) = role g"
  by (cases e)
     (simp_all add: dataChannel_onmessage_def handleNetworkMessage_role createExplosion_role emit_frame)

lemma run_role: "role (run evs g) = role g"
  unfolding run_def by (induction evs arbitrary: g) (simp_all add: step_role)

lemma handleRemoteDamage_other:
  "owned (role g) \<noteq> Some q \<Longrightarrow>
   health (playerOf (state_of (handleRemoteDamage d target g)) q) = health (playerOf g q)"
  by (cases q) (auto simp: handleRemoteDamage_def damageOwn_other_simps)

lemma handleNetworkMessage_other:
  "owned (role g) \<noteq> Some q \<Longrightarrow>
   health (playerOf (state_of (handleNetworkMessage msg g)) q) = health (playerOf g q)"
  by (cases msg; cases q)
     (simp_all add: Let_def syncMapFromHost_def spawnRemoteBullet_def spawnBullet_def setInfo_def
        handleRemoteTreeDestruction_def message_frame
        handleRemoteDamage_other [where q = P1, simplified]
        handleRemoteDamage_other [where q = P2, simplified] split: option.splits)

lemma step_other:
  "owned (role g) \<noteq> Some q \<Longrightarrow> health (playerOf (step e g) q) = health (playerOf g q)"
proof (cases e)
  case (Received msg)
  assume "owned (role g) \<noteq> Some q"
  then have "owned (role (emit ''message'' g)) \<noteq> Some q" by (simp add: emit_frame)
  from handleNetworkMessage_other [OF this, of msg] show ?thesis
    using Received by (cases q) (simp_all add: dataChannel_onmessage_def emit_frame)
next
  case (LocalExplosion pos)
  assume "owned (role g) \<noteq> Some q"
  then show ?thesis using LocalExplosion by (simp add: createExplosion_other)
qed

lemma handleNetworkMessage_healths:
  "\<not> mayDamage (role g) (Received msg) \<Longrightarrow>
   healths (state_of (handleNetworkMessage msg g)) = healths g"
  by (cases msg)
     (auto simp: healths_def Let_def syncMapFromHost_def spawnRemoteBullet_def spawnBullet_def
        setInfo_def handleRemoteTreeDestruction_def handleRemoteDamage_def message_frame
        split: option.splits)

lemma step_healths:
  "\<not> mayDamage (role g) e \<Longrightarrow> healths (step e g) = healths g"
proof (cases e)
  case (Received msg)
  assume "\<not> mayDamage (role g) e"
  then have "\<not> mayDamage (role (emit ''message'' g)) (Received msg)"
    using Received by (simp add: emit_frame)
  from handleNetworkMessage_healths [OF this] show ?thesis
    using Received by (simp add: dataChannel_onmessage_def healths_def emit_frame)
next
  case (LocalExplosion pos)
  assume "\<not> mayDamage (role g) e"
  then show ?thesis using LocalExplosion by simp
qed

lemma run_other:
  "owned (role g) \<noteq> Some q \<Longrightarrow> health (playerOf (run evs g) q) = health (playerOf g q)"
proof (induction evs arbitrary: g)
  case Nil
  then show ?case by (simp add: run_def)
next
  case (Cons e evs)
  have "run (e # evs) g = run evs (step e g)" by (simp add: run_def)
  moreover have "owned (role (step e g)) \<noteq> Some q" using Cons.prems by (simp add: step_role)
  ultimately show ?case using Cons.IH [of "step e g"] step_other [OF Cons.prems, of e] by simp
qed

lemma run_healths:
  "list_all (\<lambda>e. \<not> mayDamage (role g) e) evs \<Longrightarrow> healths (run evs g) = healths g"
proof (induction evs arbitrary: g)
  case Nil
  then show ?case by (simp add: run_def)
next
  case (Cons e evs)
  have r: "run (e # evs) g = run evs (step e g)" by (simp add: run_def)
  have "list_all (\<lambda>e'. \<not> mayDamage (role (step e g)) e') evs"
    using Cons.prems by (simp add: step_role)
  from Cons.IH [OF this] have "healths (run evs (step e g)) = healths (step e g)" .
  moreover have "healths (step e g) = healths g" using Cons.prems by (simp add: step_healths)
  ultimately show ?case using r by simp
qed

section \<open>Authority over health\<close>

text \<open>
  C1. Along every run of received messages and local explosions, the health of a player the
  peer does not own never changes; the health of either player changes only at an explosion
  of the peer's own or at a damage message whose target the peer owns (the host player1, the
  client player2); in particular a \<^verbatim>\<open>player_update\<close>, like every message other than such a
  damage message, leaves both health fields as they were. (The respawn timer that the death
  handler sets is not one of these events.)
\<close>

theorem health_authority:
  "(owned (role g) \<noteq> Some q \<longrightarrow> health (playerOf (run evs g) q) = health (playerOf g q)) \<and>
   (list_all (\<lambda>e. \<not> mayDamage (role g) e) evs \<longrightarrow>
      health (player1 (run evs g)) = health (player1 g) \<and>
      health (player2 (run evs g)) = health (player2 g)) \<and>
   health (player1 (step (Received (PlayerUpdate d)) g)) = health (player1 g) \<and>
   health (player2 (step (Received (PlayerUpdate d)) g)) = health (player2 g)"
proof -
  have "\<not> mayDamage (role g) (Received (PlayerUpdate d))" by simp
  from step_healths [OF this] run_healths [of g evs] run_other [of g q evs]
  show ?thesis by (auto simp: healths_def)
qed

theorem health_authority_witness:
  "owned (role clientInMatch) \<noteq> Some P1 \<and>
   list_all (\<lambda>e. \<not> mayDamage (role clientInMatch) e) sampleEvents \<and>
   health (player1 (run sampleEvents clientInMatch)) = 100 \<and>
   health (player2 (run sampleEvents clientInMatch)) = 100"
proof -
  have a: "owned (role clientInMatch) \<noteq> Some P1"
    by (simp add: clientInMatch_fields)
  have b: "list_all (\<lambda>e. \<not> mayDamage (role clientInMatch) e) sampleEvents"
    by (simp add: clientInMatch_fields sampleEvents_def)
  from a b health_authority [of clientInMatch P1 sampleEvents]
  show ?thesis by (simp add: clientInMatch_fields)
qed

section \<open>Scores and the win condition\<close>

lemma inMatch_cases:
  "inMatch g \<Longrightarrow>
   (localPlayer g = Some P1 \<and> remotePlayer g = Some P2 \<Longrightarrow> R) \<Longrightarrow>
   (localPlayer g = Some P2 \<and> remotePlayer g = Some P1 \<Longrightarrow> R) \<Longrightarrow> R"
  by (auto simp: inMatch_def)

lemma startGame_inMatch: "inMatch (startGame g)"
  by (simp add: inMatch_def startGame_def createTanks_def createTankGroup_def multiplayer_send_def
      net_send_def Let_def)

lemma checkWinCondition_in_match:
  assumes "inMatch g"
  shows "checkWinCondition g = Normal (if reached g then triggerFinalCutscene g else g)"
  using assms
  by (rule inMatch_cases) (auto simp: checkWinCondition_def reached_def)

lemma inMatch_addScore: "inMatch g \<Longrightarrow> inMatch (addScore p g)"
  by (simp add: inMatch_def addScore_frame)

lemma inMatch_send: "inMatch g \<Longrightarrow> inMatch (multiplayer_send ty d g)"
  by (simp add: inMatch_def multiplayer_send_frame)

lemma handleLocalDeath_in_match:
  assumes "inMatch g" and "remotePlayer g = Some r"
  shows "handleLocalDeath g =
           (let g2 = addScore r (multiplayer_send (JStr ''death'') (JObj []) g);
                g3 = (if reached g2 then triggerFinalCutscene g2 else g2)
            in Normal (g3\<lparr>pendingRespawns := Suc (pendingRespawns g3)\<rparr>))"
proof -
  let ?g2 = "addScore r (multiplayer_send (JStr ''death'') (JObj []) g)"
  have m: "inMatch ?g2" using assms(1) by (simp add: inMatch_addScore inMatch_send)
  then have "localPlayer ?g2 \<noteq> None" by (auto simp: inMatch_def)
  then show ?thesis
    using assms(2) checkWinCondition_in_match [OF m]
    by (auto simp: handleLocalDeath_def Let_def multiplayer_send_frame)
qed

lemma handleRemoteDeath_in_match:
  assumes "inMatch g" and "localPlayer g = Some l"
  shows "handleRemoteDeath g =
           (let g1 = addScore l g in Normal (if reached g1 then triggerFinalCutscene g1 else g1))"
proof -
  let ?g1 = "addScore l g"
  have m: "inMatch ?g1" using assms(1) by (simp add: inMatch_addScore)
  then have "remotePlayer ?g1 \<noteq> None" by (auto simp: inMatch_def)
  then show ?thesis
    using assms(2) checkWinCondition_in_match [OF m]
    by (auto simp: handleRemoteDeath_def Let_def)
qed

lemma addScore_scores:
  "score (player1 (addScore P1 g)) = Suc (score (player1 g))"
  "score (player2 (addScore P1 g)) = score (player2 g)"
  "score (player1 (addScore P2 g)) = score (player1 g)"
  "score (player2 (addScore P2 g)) = Suc (score (player2 g))"
  by (simp_all add: addScore_def)

text \<open>
  On a peer where \<^verbatim>\<open>createTanks\<close> has run, a death event returns, adds one to the total of the
  two scores, and locks the controls exactly when a score is at the threshold afterwards.
\<close>

lemma onDeath_in_match:
  assumes "inMatch g"
  shows "returned (onDeath d g) \<and> inMatch (state_of (onDeath d g)) \<and>
         total (state_of (onDeath d g)) = Suc (total g) \<and>
         winThreshold (state_of (onDeath d g)) = winThreshold g \<and>
         score (player1 g) \<le> score (player1 (state_of (onDeath d g))) \<and>
         score (player2 g) \<le> score (player2 (state_of (onDeath d g))) \<and>
         isControlsLocked (state_of (onDeath d g)) =
           (isControlsLocked g \<or> reached (state_of (onDeath d g)))"
proof -
  from assms obtain l r where lr: "localPlayer g = Some l" "remotePlayer g = Some r"
    by (auto simp: inMatch_def)
  show ?thesis
  proof (cases d)
    case LocalDeath
    let ?g1 = "multiplayer_send (JStr ''death'') (JObj []) g"
    have m: "inMatch (addScore r ?g1)" using assms by (simp add: inMatch_addScore inMatch_send)
    show ?thesis
      using LocalDeath handleLocalDeath_in_match [OF assms lr(2)] m
      by (cases r)
         (simp_all add: Let_def inMatch_def total_def reached_def triggerFinalCutscene_def
            addScore_scores addScore_frame multiplayer_send_frame)
  next
    case RemoteDeath
    have m: "inMatch (addScore l g)" using assms by (simp add: inMatch_addScore)
    show ?thesis
      using RemoteDeath handleRemoteDeath_in_match [OF assms lr(1)] m
      by (cases l)
         (simp_all add: Let_def inMatch_def total_def reached_def triggerFinalCutscene_def
            addScore_scores addScore_frame)
  qed
qed

lemma reached_mono:
  "winThreshold g' = winThreshold g \<Longrightarrow> score (player1 g) \<le> score (player1 g') \<Longrightarrow>
   score (player2 g) \<le> score (player2 g') \<Longrightarrow> reached g \<Longrightarrow> reached g'"
  unfolding reached_def
  by (metis enat_ord_simps(1) order_trans)

lemma score_invariant_in_match:
  assumes "inMatch g"
  shows "total (deaths ds g) = total g + length ds \<and>
         (isControlsLocked g = reached g \<longrightarrow> isControlsLocked (deaths ds g) = reached (deaths ds g))"
  using assms
proof (induction ds arbitrary: g)
  case Nil
  then show ?case by (simp add: deaths_def)
next
  case (Cons d ds)
  let ?g1 = "state_of (onDeath d g)"
  note s = onDeath_in_match [OF Cons.prems, of d]
  have r: "deaths (d # ds) g = deaths ds ?g1" by (simp add: deaths_def)
  from s have m: "inMatch ?g1" by simp
  have inv: "isControlsLocked ?g1 = reached ?g1" if "isControlsLocked g = reached g"
    using that s reached_mono [of ?g1 g] by auto
  from Cons.IH [OF m] s inv show ?case unfolding r by simp
qed

lemma getWinThreshold_values:
  "getWinThreshold ''bo3'' = 2" "getWinThreshold ''bo5'' = 3" "getWinThreshold ''infinite'' = \<infinity>"
  by (simp_all add: getWinThreshold_def)

lemma infinite_never_reached: "winThreshold g = \<infinity> \<Longrightarrow> \<not> reached g"
  by (simp add: reached_def)

text \<open>
  C2. The failing input: the host of a multiplayer session once the channel is open. Nothing
  on the host's path calls \<^verbatim>\<open>startGame\<close> (the \<^verbatim>\<open>connected\<close> listener only sends, and the
  switch has no case for the client's \<^verbatim>\<open>ready\<close>), so \<^verbatim>\<open>localPlayer\<close> is still null there, and
  the death message of the client makes \<^verbatim>\<open>handleRemoteDeath\<close> throw before any score moves:
  one death event was observed and the scores still add up to zero.
\<close>

theorem host_death_envelope_throws:
  "handleNetworkMessage Death hostConnected = Thrown hostConnected \<and>
   score (player1 hostConnected) + score (player2 hostConnected) = 0"
  by (simp add: handleRemoteDeath_def hostConnected_fields)

section \<open>Damage messages\<close>

lemma handleRemoteDamage_not_owner:
  "owned (role g) \<noteq> Some P1 \<Longrightarrow> handleRemoteDamage d ''player1'' g = Normal g"
  "owned (role g) \<noteq> Some P2 \<Longrightarrow> handleRemoteDamage d ''player2'' g = Normal g"
  by (auto simp: handleRemoteDamage_def)

text \<open>
  On a peer whose local player is set (or whose page has no health bar), the owner of the
  target subtracts the damage, floors the health at zero and, at zero, runs the death handler.
\<close>

lemma updateHealthBar_returns:
  "localPlayer g \<noteq> None \<or> healthBarFill g = None \<Longrightarrow>
   updateHealthBar g = Normal (state_of (updateHealthBar g))"
  by (auto simp: updateHealthBar_def split: option.splits)

lemma damageOwn_in_match:
  assumes "localPlayer g \<noteq> None \<or> healthBarFill g = None"
  shows "damageOwn p d g =
           (let g2 = state_of (updateHealthBar
                       (setPlayer p ((playerOf g p)\<lparr>health := max 0 (health (playerOf g p) - d)\<rparr>) g))
            in if max 0 (health (playerOf g p) - d) \<le> 0 then handleLocalDeath g2 else Normal g2) \<and>
         health (playerOf (state_of (damageOwn p d g)) p) = max 0 (health (playerOf g p) - d)"
proof -
  let ?g1 = "setPlayer p ((playerOf g p)\<lparr>health := max 0 (health (playerOf g p) - d)\<rparr>) g"
  let ?g2 = "state_of (updateHealthBar ?g1)"
  have "localPlayer ?g1 \<noteq> None \<or> healthBarFill ?g1 = None" using assms by (cases p) simp_all
  from updateHealthBar_returns [OF this] have n: "updateHealthBar ?g1 = Normal ?g2" .
  have h: "health (playerOf ?g2 p) = max 0 (health (playerOf g p) - d)"
    by (cases p) (simp_all add: updateHealthBar_frame)
  have e: "damageOwn p d g = (if health (playerOf ?g2 p) \<le> 0 then handleLocalDeath ?g2 else Normal ?g2)"
    unfolding damageOwn_def Let_def by (subst n) simp
  have "health (playerOf (state_of (damageOwn p d g)) p) = health (playerOf ?g2 p)"
    unfolding e by (cases p) (simp_all add: handleLocalDeath_frame)
  with e h show ?thesis by (simp add: Let_def)
qed

lemma client_damage_example:
  "health (player2 (state_of (handleNetworkMessage (Damage 30 ''player2'') clientInMatch))) = 70 \<and>
   returned (handleNetworkMessage (Damage 30 ''player2'') clientInMatch) \<and>
   handleNetworkMessage (Damage 30 ''player2'') hostConnected = Normal hostConnected"
  by (simp add: handleRemoteDamage_def damageOwn_def updateHealthBar_def Let_def
      clientInMatch_fields hostConnected_fields maxPlayerHealth_def)

text \<open>
  C3. The failing input: the same host, its player1 at health 20 after two damage messages of
  40, sent a third one. The health is written, floored at zero, then \<^verbatim>\<open>updateHealthBar\<close> reads
  \<^verbatim>\<open>gameState.localPlayer.health\<close> with \<^verbatim>\<open>localPlayer\<close> null and throws, so the death handler
  is never reached: no score, no respawn timer, no death message.
\<close>

theorem host_lethal_damage_throws:
  "health (player1 hostHit) = 20 \<and>
   handleNetworkMessage (Damage 40 ''player1'') hostHit =
     Thrown (hostHit\<lparr>player1 := (player1 hostHit)\<lparr>health := 0\<rparr>\<rparr>)"
  by (simp add: handleRemoteDamage_def damageOwn_def updateHealthBar_def hostHit_fields)

section \<open>The map sent by the host\<close>

lemma game_start_keeps_objects:
  "trees (state_of (handleNetworkMessage (GameStart mode md) g)) = trees g \<and>
   collidables (state_of (handleNetworkMessage (GameStart mode md) g)) = collidables g \<and>
   barriers (state_of (handleNetworkMessage (GameStart mode md) g)) = barriers g \<and>
   decorationPositions (state_of (handleNetworkMessage (GameStart mode (Some mapData)) g)) =
     \<lparr>dwarehouses = orEmpty (mwarehouses mapData), dtrees = orEmpty (mtrees mapData),
      dbarriers = orEmpty (mbarriers mapData)\<rparr>"
  by (simp add: Let_def startGame_frame syncMapFromHost_def split: option.splits)

text \<open>
  C4. The failing input: a client whose own loader placed a tree at (10, 0, 10) receives the
  host's \<^verbatim>\<open>game_start\<close> with one tree at (-100, 2, 40). \<^verbatim>\<open>syncMapFromHost\<close> stores the host's
  list in \<^verbatim>\<open>decorationPositions\<close> and nothing reads it again: the client's trees and collidables
  are still the objects of its own random placement.
\<close>

theorem host_map_not_applied:
  "map oposition (trees (dataChannel_onmessage (GameStart ''bo3'' (Some hostMap)) clientWithTree)) = [(10, 0, 10)] \<and>
   map oposition (collidables (dataChannel_onmessage (GameStart ''bo3'' (Some hostMap)) clientWithTree)) = [(10, 0, 10)] \<and>
   trees (dataChannel_onmessage (GameStart ''bo3'' (Some hostMap)) clientWithTree) = trees clientWithTree \<and>
   collidables (dataChannel_onmessage (GameStart ''bo3'' (Some hostMap)) clientWithTree) = collidables clientWithTree \<and>
   dtrees (decorationPositions (dataChannel_onmessage (GameStart ''bo3'' (Some hostMap)) clientWithTree)) = [hostPlacement] \<and>
   (px hostPlacement, py hostPlacement, pz hostPlacement) = (- 100, 2, 40)"
  by (simp add: session_defs loadTrees_def addTree_def localDraw_def hostMap_def hostPlacement_def
      syncMapFromHost_def orEmpty_def)

section \<open>The channel closes\<close>

text \<open>
  What the close does: the connected flag goes down, the event is emitted, the listener of
  game.js changes nothing, every later \<^verbatim>\<open>send\<close> is refused and the replication tick writes
  no frame.
\<close>

lemma onclose_effects:
  "dataChannel_onclose g =
     g\<lparr>webrtcManager := (webrtcManager g)\<lparr>isConnected := False,
          emitted := emitted (webrtcManager g) @ [''disconnected'']\<rparr>\<rparr> \<and>
   send ty d (webrtcManager (dataChannel_onclose g)) = (False, webrtcManager (dataChannel_onclose g)) \<and>
   webrtcManager (state_of (replicationTick payload delta (dataChannel_onclose g))) =
     webrtcManager (dataChannel_onclose g)"
proof -
  have a: "dataChannel_onclose g =
     g\<lparr>webrtcManager := (webrtcManager g)\<lparr>isConnected := False,
          emitted := emitted (webrtcManager g) @ [''disconnected'']\<rparr>\<rparr>"
    by (simp add: dataChannel_onclose_def onDisconnected_def emit_def Let_def)
  have b: "send ty' d' (webrtcManager (dataChannel_onclose g)) = (False, webrtcManager (dataChannel_onclose g))"
    for ty' d'
    unfolding a by (simp add: send_def)
  have c: "webrtcManager (state_of (sendPlayerUpdate payload s)) = webrtcManager s"
    if "send (JStr ''player_update'') payload (webrtcManager s) = (False, webrtcManager s)" for s
    using that by (simp add: sendPlayerUpdate_def net_send_def split: option.splits)
  have "webrtcManager (state_of (replicationTick payload delta (dataChannel_onclose g))) =
        webrtcManager (dataChannel_onclose g)"
  proof -
    let ?g1 = "(dataChannel_onclose g)\<lparr>lastPlayerUpdateTime := lastPlayerUpdateTime (dataChannel_onclose g) + delta\<rparr>"
    have "send (JStr ''player_update'') payload (webrtcManager ?g1) = (False, webrtcManager ?g1)"
      using b by simp
    from c [OF this] show ?thesis
      by (cases "sendPlayerUpdate payload ?g1") (simp_all add: replicationTick_def Let_def)
  qed
  with a b show ?thesis by simp
qed

text \<open>
  C5. The failing input: the client in a running match when the channel closes. The session
  is marked disconnected and the event is emitted, but the \<^verbatim>\<open>disconnected\<close> listener of
  game.js only logs: the match is still started and active and the menu is still hidden.
\<close>

theorem close_leaves_match_running:
  "\<not> isConnected (webrtcManager (channelCloses clientInMatch)) \<and>
   last (emitted (webrtcManager (channelCloses clientInMatch))) = ''disconnected'' \<and>
   gameStarted (channelCloses clientInMatch) \<and>
   isRoundActive (channelCloses clientInMatch) \<and>
   \<not> menuVisible (channelCloses clientInMatch)"
  by (simp add: session_defs)

section \<open>Tree destruction reported by the other peer\<close>

lemma destroyLoop_no_match:
  "n \<le> length (trees g) \<Longrightarrow> \<forall>j<n. oid (trees g ! j) \<noteq> Some t \<Longrightarrow> destroyLoop t n g = Normal g"
  by (induction n) simp_all

lemma destroyLoop_match:
  "i < n \<Longrightarrow> n \<le> length (trees g) \<Longrightarrow> oid (trees g ! i) = Some t \<Longrightarrow>
   \<forall>j. i < j \<and> j < n \<longrightarrow> oid (trees g ! j) \<noteq> Some t \<Longrightarrow>
   destroyLoop t n g = Normal (destroyAt i g)"
proof (induction n)
  case 0
  then show ?case by simp
next
  case (Suc n)
  show ?case
  proof (cases "i = n")
    case True
    then show ?thesis using Suc.prems by simp
  next
    case False
    then have "i < n" using Suc.prems by simp
    moreover have "oid (trees g ! n) \<noteq> Some t" using Suc.prems \<open>i < n\<close> by simp
    ultimately show ?thesis using Suc by simp
  qed
qed

lemma destroyAt_trees: "trees (destroyAt i g) = splice_at i (trees g)"
  by (simp add: destroyAt_def Let_def split: option.splits)

lemma destroyAt_scene: "scene (destroyAt i g) = scene_remove (oref (trees g ! i)) (scene g)"
  by (simp add: destroyAt_def Let_def split: option.splits)

lemma destroyAt_collidables:
  "collidables (destroyAt i g) =
     (if Suc i < length (trees g)
      then (case indexOf (collidables g) (trees g ! Suc i) of
              None \<Rightarrow> collidables g
            | Some k \<Rightarrow> splice_at k (collidables g))
      else collidables g)"
proof (cases "Suc i < length (trees g)")
  case True
  then have "i < length (splice_at i (trees g))" by (simp add: splice_at_def)
  then show ?thesis using True
    by (simp add: destroyAt_def Let_def splice_at_nth split: option.splits)
next
  case False
  then have "\<not> i < length (splice_at i (trees g))" by (simp add: splice_at_def)
  then show ?thesis using False by (simp add: destroyAt_def Let_def)
qed

lemma forest_fields:
  "trees forest =
     [\<lparr>oref = 0, otype = ''tree'', oid = Some ''tree_0'', oposition = (10, 0, 10), orotY = 0, oscale = 1\<rparr>,
      \<lparr>oref = 1, otype = ''tree'', oid = Some ''tree_1'', oposition = (20, 2, - 30), orotY = 1, oscale = 0.9\<rparr>,
      \<lparr>oref = 2, otype = ''tree'', oid = Some ''tree_2'', oposition = (- 40, 1, 5), orotY = 2, oscale = 0.8\<rparr>]"
  "collidables forest = trees forest"
  "scene forest = [0, 1, 2]"
  by (simp_all add: forest_def loadTrees_def addTree_def newGame_def Let_def digits_of.simps)

text \<open>
  C8. Destroying a tree id that no tree of the list carries returns the state as it is:
  trees, collidables and scene are unchanged. So, the ids of the trees being distinct,
  handling the same message a second time changes nothing more than the first time did.
\<close>

theorem tree_destruction_idempotent:
  "(list_all (\<lambda>tr. oid tr \<noteq> Some t) (trees g) \<longrightarrow> handleRemoteTreeDestruction t g = Normal g) \<and>
   (distinct (map oid (trees g)) \<longrightarrow>
      and_then (handleRemoteTreeDestruction t g) (handleRemoteTreeDestruction t) =
      handleRemoteTreeDestruction t g)"
proof (intro conjI impI)
  assume "list_all (\<lambda>tr. oid tr \<noteq> Some t) (trees g)"
  then have "\<forall>j<length (trees g). oid (trees g ! j) \<noteq> Some t" by (simp add: list_all_length)
  then show "handleRemoteTreeDestruction t g = Normal g"
    unfolding handleRemoteTreeDestruction_def by (intro destroyLoop_no_match) simp_all
next
  assume d: "distinct (map oid (trees g))"
  show "and_then (handleRemoteTreeDestruction t g) (handleRemoteTreeDestruction t) =
        handleRemoteTreeDestruction t g"
  proof (cases "\<exists>i<length (trees g). oid (trees g ! i) = Some t")
    case False
    then have "handleRemoteTreeDestruction t g = Normal g"
      unfolding handleRemoteTreeDestruction_def by (intro destroyLoop_no_match) simp_all
    then show ?thesis by simp
  next
    case True
    then obtain i where i: "i < length (trees g)" "oid (trees g ! i) = Some t" by blast
    have uniq: "\<forall>j. i < j \<and> j < length (trees g) \<longrightarrow> oid (trees g ! j) \<noteq> Some t"
    proof (intro allI impI)
      fix j assume j: "i < j \<and> j < length (trees g)"
      with distinct_map_nth [OF d i(1), of j] show "oid (trees g ! j) \<noteq> Some t"
        using i by simp
    qed
    have first: "handleRemoteTreeDestruction t g = Normal (destroyAt i g)"
      unfolding handleRemoteTreeDestruction_def using i uniq by (intro destroyLoop_match) simp_all
    have "list_all (\<lambda>tr. oid tr \<noteq> oid (trees g ! i)) (splice_at i (trees g))"
      using d i by (intro splice_at_ids) simp_all
    then have "\<forall>j<length (trees (destroyAt i g)). oid (trees (destroyAt i g) ! j) \<noteq> Some t"
      using i by (simp add: list_all_length destroyAt_trees)
    then have "handleRemoteTreeDestruction t (destroyAt i g) = Normal (destroyAt i g)"
      unfolding handleRemoteTreeDestruction_def by (intro destroyLoop_no_match) simp_all
    with first show ?thesis by simp
  qed
qed

theorem tree_destruction_idempotent_witness:
  "list_all (\<lambda>tr. oid tr \<noteq> Some ''tree_7'') (trees forest) \<and>
   handleRemoteTreeDestruction ''tree_7'' forest = Normal forest \<and>
   distinct (map oid (trees forest)) \<and>
   and_then (handleRemoteTreeDestruction ''tree_0'' forest) (handleRemoteTreeDestruction ''tree_0'') =
     handleRemoteTreeDestruction ''tree_0'' forest"
proof -
  have a: "list_all (\<lambda>tr. oid tr \<noteq> Some ''tree_7'') (trees forest)"
    by (simp add: forest_fields)
  have b: "distinct (map oid (trees forest))"
    by (simp add: forest_fields)
  from a b tree_destruction_idempotent [of "''tree_7''" forest]
    tree_destruction_idempotent [of "''tree_0''" forest]
  show ?thesis by simp
qed

text \<open>
  C10. When the loop of \<^verbatim>\<open>handleRemoteTreeDestruction\<close> stops at index \<open>i\<close> (the last tree with
  the received id), the tree leaves the scene and the trees list; the collidables are searched
  for \<^verbatim>\<open>trees[i]\<close> after the splice, which is the tree that followed, a different object:
  that one is removed from the collidables if it is there, nothing is removed when the
  destroyed tree was the last of the list, and the destroyed tree itself stays collidable.
\<close>

theorem remote_destruction_keeps_collidable:
  assumes "distinct (trees g)" and "i < length (trees g)" and "oid (trees g ! i) = Some t"
    and "\<forall>j. i < j \<and> j < length (trees g) \<longrightarrow> oid (trees g ! j) \<noteq> Some t"
  shows "handleRemoteTreeDestruction t g = Normal (destroyAt i g) \<and>
         trees (destroyAt i g) = splice_at i (trees g) \<and>
         scene (destroyAt i g) = scene_remove (oref (trees g ! i)) (scene g) \<and>
         collidables (destroyAt i g) =
           (if Suc i < length (trees g)
            then (case indexOf (collidables g) (trees g ! Suc i) of
                    None \<Rightarrow> collidables g
                  | Some k \<Rightarrow> splice_at k (collidables g))
            else collidables g) \<and>
         (Suc i < length (trees g) \<longrightarrow> trees g ! Suc i \<noteq> trees g ! i) \<and>
         (trees g ! i \<in> set (collidables g) \<longrightarrow> trees g ! i \<in> set (collidables (destroyAt i g)))"
proof -
  have run: "handleRemoteTreeDestruction t g = Normal (destroyAt i g)"
    unfolding handleRemoteTreeDestruction_def using assms by (intro destroyLoop_match) simp_all
  have neq: "trees g ! Suc i \<noteq> trees g ! i" if "Suc i < length (trees g)"
    using that assms(1,2) by (simp add: nth_eq_iff_index_eq)
  have keep: "trees g ! i \<in> set (collidables (destroyAt i g))" if m: "trees g ! i \<in> set (collidables g)"
  proof (cases "Suc i < length (trees g)")
    case True
    show ?thesis
    proof (cases "indexOf (collidables g) (trees g ! Suc i)")
      case None
      then show ?thesis using m True by (simp add: destroyAt_collidables)
    next
      case (Some k)
      from indexOf_Some [OF Some] neq [OF True]
      have "k < length (collidables g)" "collidables g ! k \<noteq> trees g ! i" by simp_all
      from splice_at_keeps [OF m this] show ?thesis using Some True by (simp add: destroyAt_collidables)
    qed
  next
    case False
    then show ?thesis using m by (simp add: destroyAt_collidables)
  qed
  show ?thesis
    using run neq keep destroyAt_collidables [of i g] by (simp add: destroyAt_trees destroyAt_scene)
qed

theorem remote_destruction_keeps_collidable_witness:
  "distinct (trees forest) \<and> (0::nat) < length (trees forest) \<and>
   oid (trees forest ! 0) = Some ''tree_0'' \<and>
   handleRemoteTreeDestruction ''tree_0'' forest = Normal (destroyAt 0 forest) \<and>
   map oid (trees (destroyAt 0 forest)) = [Some ''tree_1'', Some ''tree_2''] \<and>
   map oid (collidables (destroyAt 0 forest)) = [Some ''tree_0'', Some ''tree_2''] \<and>
   scene (destroyAt 0 forest) = [1, 2] \<and>
   trees forest ! 0 \<in> set (collidables (destroyAt 0 forest))"
proof -
  have a: "distinct (trees forest)" by (simp add: forest_fields)
  have b: "0 < length (trees forest)" by (simp add: forest_fields)
  have c: "oid (trees forest ! 0) = Some ''tree_0''" by (simp add: forest_fields)
  have d: "\<forall>j. 0 < j \<and> j < length (trees forest) \<longrightarrow> oid (trees forest ! j) \<noteq> Some ''tree_0''"
    by (simp add: forest_fields nth_Cons split: nat.splits)
  have e: "trees forest ! 0 \<in> set (collidables forest)" by (simp add: forest_fields)
  from remote_destruction_keeps_collidable [OF a b c d] a b c e
  show ?thesis
    by (simp add: forest_fields splice_at_def scene_remove_def)
qed

section \<open>Bullets and explosions of the other peer\<close>

lemma createExplosion_remote:
  "returned (createExplosion pos False g) \<and>
   core (state_of (createExplosion pos False g)) = core g \<and>
   bullets (state_of (createExplosion pos False g)) = bullets g"
  by (simp add: createExplosion_def core_def Let_def)

lemma moveBullet_isLocal: "isLocal (moveBullet delta b) = isLocal b"
  by (simp add: moveBullet_def Let_def split: prod.splits)

lemma removeBullet_frame:
  "core (removeBullet b i g) = core g"
  "bullets (removeBullet b i g) = splice_at i (bullets g)"
  by (simp_all add: removeBullet_def core_def)

lemma bulletBody_remote:
  assumes "i < length (bullets g)" and "list_all (\<lambda>b. \<not> isLocal b) (bullets g)"
  shows "returned (bulletBody rc delta i g) \<and>
         core (state_of (bulletBody rc delta i g)) = core g \<and>
         i \<le> length (bullets (state_of (bulletBody rc delta i g))) \<and>
         list_all (\<lambda>b. \<not> isLocal b) (bullets (state_of (bulletBody rc delta i g)))"
proof -
  let ?b = "moveBullet delta (bullets g ! i)"
  let ?g1 = "g\<lparr>bullets := (bullets g)[i := ?b]\<rparr>"
  have nl: "\<not> isLocal ?b" using assms by (simp add: list_all_length moveBullet_isLocal)
  have all1: "list_all (\<lambda>b. \<not> isLocal b) (bullets ?g1)"
    using assms(2) nl by (simp add: list_all_update)
  have len1: "length (bullets ?g1) = length (bullets g)" by simp
  have c1: "core ?g1 = core g" by (simp add: core_def)
  let ?travel = "vsub (bposition ?b) (lastPosition ?b)"
  let ?hit = "if vlength ?travel > 0
              then rc (lastPosition ?b) (normalize ?travel) (vlength ?travel) (collidables ?g1)
              else None"
  show ?thesis
  proof (cases ?hit)
    case None
    let ?b' = "?b\<lparr>age := age ?b + delta\<rparr>"
    let ?g2 = "?g1\<lparr>bullets := (bullets ?g1)[i := ?b']\<rparr>"
    have "\<not> isLocal ?b'" using nl by simp
    from list_all_update [OF all1, of ?b' i, OF this]
    have all2: "list_all (\<lambda>b. \<not> isLocal b) (bullets ?g2)" by simp
    have eq: "bulletBody rc delta i g = Normal (if age ?b' > 5 then removeBullet ?b' i ?g2 else ?g2)"
      using None assms(1) by (simp add: bulletBody_def Let_def)
    have c2: "core ?g2 = core g" by (simp add: core_def)
    show ?thesis
      using eq c2 all2 assms(1) list_all_splice_at [OF all2, of i]
      by (auto simp: length_splice_at removeBullet_frame)
  next
    case (Some point)
    let ?x = "createExplosion point (isLocal ?b) ?g1"
    have eq: "bulletBody rc delta i g = and_then ?x (\<lambda>g2. Normal (removeBullet ?b i g2))"
      using Some assms(1) by (simp add: bulletBody_def Let_def)
    from nl createExplosion_remote [of point ?g1]
    obtain g2 where x: "?x = Normal g2" "core g2 = core ?g1" "bullets g2 = bullets ?g1"
      by (cases ?x) simp_all
    show ?thesis
      using eq x c1 all1 assms(1) list_all_splice_at [OF all1, of i]
      by (auto simp: length_splice_at removeBullet_frame)
  qed
qed

lemma bulletLoop_remote:
  "n \<le> length (bullets g) \<Longrightarrow> list_all (\<lambda>b. \<not> isLocal b) (bullets g) \<Longrightarrow>
   returned (bulletLoop rc delta n g) \<and> core (state_of (bulletLoop rc delta n g)) = core g"
proof (induction n arbitrary: g)
  case 0
  then show ?case by simp
next
  case (Suc n)
  then have "n < length (bullets g)" by simp
  from bulletBody_remote [OF this Suc.prems(2), of rc delta]
  obtain g1 where b: "bulletBody rc delta n g = Normal g1" "core g1 = core g"
    "n \<le> length (bullets g1)" "list_all (\<lambda>b. \<not> isLocal b) (bullets g1)"
    by (cases "bulletBody rc delta n g") simp_all
  from Suc.IH [OF b(3,4)] b(1,2) show ?case by simp
qed

lemma bulletBody_remote_one:
  assumes "i < length (bullets g)" and "\<not> isLocal (bullets g ! i)"
  shows "returned (bulletBody rc delta i g) \<and> core (state_of (bulletBody rc delta i g)) = core g"
proof -
  let ?b = "moveBullet delta (bullets g ! i)"
  let ?g1 = "g\<lparr>bullets := (bullets g)[i := ?b]\<rparr>"
  have nl: "\<not> isLocal ?b" using assms by (simp add: moveBullet_isLocal)
  have c1: "core ?g1 = core g" by (simp add: core_def)
  let ?travel = "vsub (bposition ?b) (lastPosition ?b)"
  let ?hit = "if vlength ?travel > 0
              then rc (lastPosition ?b) (normalize ?travel) (vlength ?travel) (collidables ?g1)
              else None"
  show ?thesis
  proof (cases ?hit)
    case None
    then show ?thesis using assms(1)
      by (simp add: bulletBody_def Let_def removeBullet_def core_def)
  next
    case (Some point)
    let ?x = "createExplosion point (isLocal ?b) ?g1"
    have eq: "bulletBody rc delta i g = and_then ?x (\<lambda>g2. Normal (removeBullet ?b i g2))"
      using Some assms(1) by (simp add: bulletBody_def Let_def)
    from nl createExplosion_remote [of point ?g1]
    obtain g2 where x: "?x = Normal g2" "core g2 = core ?g1"
      by (cases ?x) simp_all
    show ?thesis using eq x c1 by (simp add: removeBullet_frame)
  qed
qed

lemma remoteShot_fields:
  "bullets remoteShot = [\<lparr>bref = 2, bposition = (0, 5, 0), bvelocity = (197, 0, 0), age = 0,
       lastPosition = (0, 5, 0), isLocal = False\<rparr>]"
  "explosionSpriteSheet remoteShot" "explosionSoundBuffer remoteShot"
  "nextRef remoteShot = 3" "scene remoteShot = [0, 1, 2]" "explosions remoteShot = []"
  by (simp_all add: remoteShot_def spawnRemoteBullet_def spawnBullet_def clientReady_def session_defs
      multiplyScalar_def bulletSpeed_def)

lemma remoteShot_impact:
  "updateBullets hitAtOrigin (1 / 10) remoteShot =
     Normal (remoteShot\<lparr>bullets := [], scene := [0, 1, 3, 4],
       explosions := [\<lparr>eref = 4, eposition = (0, 5, 0), eage = 0, currentFrame = 0, audioHelper = 3\<rparr>],
       nextRef := 5\<rparr>)"
  by (simp add: updateBullets_def remoteShot_fields bulletBody_def Let_def moveBullet_def
     vadd_def vsub_def multiplyScalar_def vlength_def hitAtOrigin_def bulletGravityStrength_def
     createExplosion_def removeBullet_def scene_remove_def splice_at_def)

text \<open>
  C9. A bullet made from a received \<^verbatim>\<open>bullet_spawn\<close> is appended with \<^verbatim>\<open>isLocal\<close> false;
  \<^verbatim>\<open>createExplosion\<close> with \<^verbatim>\<open>isLocal\<close> false returns without touching either player (health,
  score) or the trees and collidables; so one pass of the loop of \<^verbatim>\<open>updateBullets\<close> over a
  remote bullet, and a whole call over bullets that are all remote, whatever they hit, return
  with both players, the trees and the collidables as they were.
\<close>

theorem remote_explosions_harmless:
  "bullets (spawnRemoteBullet pos direction g) =
     bullets g @ [\<lparr>bref = nextRef g, bposition = pos, bvelocity = multiplyScalar bulletSpeed direction,
                   age = 0, lastPosition = pos, isLocal = False\<rparr>] \<and>
   core (spawnRemoteBullet pos direction g) = core g \<and>
   returned (createExplosion point False g) \<and>
   core (state_of (createExplosion point False g)) = core g \<and>
   (i < length (bullets g) \<and> \<not> isLocal (bullets g ! i) \<longrightarrow>
      returned (bulletBody rc delta i g) \<and> core (state_of (bulletBody rc delta i g)) = core g) \<and>
   (list_all (\<lambda>b. \<not> isLocal b) (bullets g) \<longrightarrow>
      returned (updateBullets rc delta g) \<and> core (state_of (updateBullets rc delta g)) = core g)"
  using createExplosion_remote [of point g] bulletLoop_remote [of "length (bullets g)" g rc delta]
    bulletBody_remote_one [of i g rc delta]
  by (simp add: spawnRemoteBullet_def spawnBullet_def core_def updateBullets_def Let_def)

theorem remote_explosions_harmless_witness:
  "list_all (\<lambda>b. \<not> isLocal b) (bullets remoteShot) \<and>
   (0::nat) < length (bullets remoteShot) \<and> \<not> isLocal (bullets remoteShot ! 0) \<and>
   returned (updateBullets hitAtOrigin (1 / 10) remoteShot) \<and>
   length (explosions (state_of (updateBullets hitAtOrigin (1 / 10) remoteShot))) = 1 \<and>
   bullets (state_of (updateBullets hitAtOrigin (1 / 10) remoteShot)) = [] \<and>
   core (state_of (updateBullets hitAtOrigin (1 / 10) remoteShot)) = core remoteShot \<and>
   core (state_of (bulletBody hitAtOrigin (1 / 10) 0 remoteShot)) = core remoteShot"
proof -
  have a: "list_all (\<lambda>b. \<not> isLocal b) (bullets remoteShot)"
    by (simp add: remoteShot_fields)
  have b: "0 < length (bullets remoteShot) \<and> \<not> isLocal (bullets remoteShot ! 0)"
    by (simp add: remoteShot_fields)
  from a b remote_explosions_harmless [of "(0, 5, 0)" "(1, 0, 0)" remoteShot "(0, 5, 0)" 0 hitAtOrigin "1 / 10"]
  show ?thesis by (simp add: remoteShot_impact)
qed

end
